theory Spec2Isabelle
  imports Main
begin

section \<open>Python values used by the loader\<close>

text \<open>
  Exceptions of the source become values. \<open>LoadError\<close> is the plain \<^verbatim>\<open>Exception\<close> that
  the count probe raises. \<open>KeyboardInterrupt\<close> is the one that the handlers written
  \<^verbatim>\<open>except Exception\<close> do not catch.
\<close>

datatype error =
    ValueError
  | KeyError
  | AttributeError
  | EOFError
  | LoadError
  | KeyboardInterrupt

subsection \<open>Strings\<close>

text \<open>
  A Python \<^verbatim>\<open>str\<close> is modelled as a \<open>string\<close> of ASCII characters; the URLs of the
  upstream service are ASCII. \<^verbatim>\<open>s.rstrip('/')\<close> removes every trailing slash,
  \<^verbatim>\<open>s.split('/')\<close> cuts at every slash and always returns at least one part.
\<close>

definition rstrip :: "char \<Rightarrow> string \<Rightarrow> string" where
  "rstrip c s = rev (dropWhile (\<lambda>x. x = c) (rev s))"

fun split :: "char \<Rightarrow> string \<Rightarrow> string list" where
  "split c [] = [[]]"
| "split c (x # xs) =
     (if x = c then [] # split c xs
      else (case split c xs of
              [] \<Rightarrow> [[x]]
            | p # ps \<Rightarrow> (x # p) # ps))"

text \<open>
  \<^verbatim>\<open>int(s)\<close> on a string: surrounding whitespace is skipped, one sign is allowed, and
  the digits may be separated by single underscores. Anything else raises
  \<^verbatim>\<open>ValueError\<close>. The whitespace characters are those of ASCII that
  \<^verbatim>\<open>str.isspace\<close> accepts.
\<close>

definition is_space :: "char \<Rightarrow> bool" where
  "is_space c = (of_char c \<in> set [9, 10, 11, 12, 13, 28, 29, 30, 31, 32 :: nat])"

definition is_digit :: "char \<Rightarrow> bool" where
  "is_digit c = (48 \<le> (of_char c :: nat) \<and> (of_char c :: nat) \<le> 57)"

definition digit_val :: "char \<Rightarrow> int" where
  "digit_val c = int (of_char c) - 48"

definition strip :: "string \<Rightarrow> string" where
  "strip s = rev (dropWhile is_space (rev (dropWhile is_space s)))"

fun digits_ok :: "string \<Rightarrow> bool" where
  "digits_ok [] = False"
| "digits_ok [c] = is_digit c"
| "digits_ok (c # d # cs) =
     (is_digit c \<and> (if d = CHR ''_'' then digits_ok cs else digits_ok (d # cs)))"

definition decimal :: "string \<Rightarrow> int" where
  "decimal ds = foldl (\<lambda>acc c. 10 * acc + digit_val c) 0 ds"

definition py_int :: "string \<Rightarrow> error + int" where
  "py_int s =
     (let t = strip s;
          neg = (t \<noteq> [] \<and> hd t = CHR ''-'');
          body = (if t \<noteq> [] \<and> (hd t = CHR ''-'' \<or> hd t = CHR ''+'') then tl t else t)
      in if digits_ok body
         then (let v = decimal (filter (\<lambda>c. c \<noteq> CHR ''_'') body)
               in Inr (if neg then - v else v))
         else Inl ValueError)"

subsection \<open>Reference extractor\<close>

text \<open>
  \<^verbatim>\<open>parts = url.rstrip('/').split('/'); return int(parts[-1])\<close>.
  The list of parts is never empty, so \<^verbatim>\<open>parts[-1]\<close> always exists.
\<close>

definition final_segment :: "string \<Rightarrow> string" where
  "final_segment url = last (split CHR ''/'' (rstrip CHR ''/'' url))"

definition extract_pokemon_id_from_url :: "string \<Rightarrow> error + int" where
  "extract_pokemon_id_from_url url = py_int (final_segment url)"


text \<open>
  \<^verbatim>\<open>s.replace(old, new)\<close> for a non-empty \<open>old\<close>: every occurrence, found from the
  left and not overlapping, is replaced. The only call of the loader passes the constant
  \<^verbatim>\<open>'pokemon-species'\<close>.
\<close>

function replace :: "string \<Rightarrow> string \<Rightarrow> string \<Rightarrow> string" where
  "replace old new [] = []"
| "replace old new (c # cs) =
     (if old \<noteq> [] \<and> take (length old) (c # cs) = old
      then new @ replace old new (drop (length old - 1) cs)
      else c # replace old new cs)"
  by pat_completeness auto
termination
  by (relation "measure (\<lambda>(old, new, s). length s)") auto

section \<open>The relational store\<close>

text \<open>
  A table is the list of its rows in insertion order. Every write of the loader is
  \<^verbatim>\<open>INSERT OR IGNORE\<close>: the row is appended unless a row with the same key is
  already there.

  Modelled from the spec: the schema (the \<^verbatim>\<open>CREATE TABLE\<close> statements, with the
  key of each table) is not among the sources. The keys are those of the
  specification's schema table: the id for \<open>pokemon\<close>, the category tables and
  \<open>height\<close>/\<open>weight\<close>; the whole row for the relationship tables and for
  \<open>evolutions\<close>.
\<close>

record tables =
  pokemon :: "(int \<times> string) list"
  types :: "(int \<times> string) list"
  stats :: "(int \<times> string) list"
  moves :: "(int \<times> string) list"
  dex :: "(int \<times> string) list"
  height :: "(int \<times> int) list"
  weight :: "(int \<times> int) list"
  pokemon_type :: "(int \<times> int) list"
  pokemon_stat :: "(int \<times> int \<times> int) list"
  pokemon_move :: "(int \<times> int) list"
  pokemon_number :: "(int \<times> int) list"
  evolutions :: "(int \<times> int) list"

definition insert_or_ignore :: "('r \<Rightarrow> 'k) \<Rightarrow> 'r \<Rightarrow> 'r list \<Rightarrow> 'r list" where
  "insert_or_ignore key r t = (if key r \<in> key ` set t then t else t @ [r])"

definition insert_pokemon :: "'a tables_scheme \<Rightarrow> int \<Rightarrow> string \<Rightarrow> 'a tables_scheme" where
  "insert_pokemon cursor pokemon_id name =
     cursor\<lparr>pokemon := insert_or_ignore fst (pokemon_id, name) (pokemon cursor)\<rparr>"

definition insert_type :: "'a tables_scheme \<Rightarrow> int \<Rightarrow> string \<Rightarrow> 'a tables_scheme" where
  "insert_type cursor type_id name =
     cursor\<lparr>types := insert_or_ignore fst (type_id, name) (types cursor)\<rparr>"

definition insert_stat :: "'a tables_scheme \<Rightarrow> int \<Rightarrow> string \<Rightarrow> 'a tables_scheme" where
  "insert_stat cursor stat_id name =
     cursor\<lparr>stats := insert_or_ignore fst (stat_id, name) (stats cursor)\<rparr>"

definition insert_move :: "'a tables_scheme \<Rightarrow> int \<Rightarrow> string \<Rightarrow> 'a tables_scheme" where
  "insert_move cursor move_id name =
     cursor\<lparr>moves := insert_or_ignore fst (move_id, name) (moves cursor)\<rparr>"

definition insert_dex :: "'a tables_scheme \<Rightarrow> int \<Rightarrow> string \<Rightarrow> 'a tables_scheme" where
  "insert_dex cursor dex_id dex_name =
     cursor\<lparr>dex := insert_or_ignore fst (dex_id, dex_name) (dex cursor)\<rparr>"

definition insert_height :: "'a tables_scheme \<Rightarrow> int \<Rightarrow> int \<Rightarrow> 'a tables_scheme" where
  "insert_height cursor pokemon_id h =
     cursor\<lparr>height := insert_or_ignore fst (pokemon_id, h) (height cursor)\<rparr>"

definition insert_weight :: "'a tables_scheme \<Rightarrow> int \<Rightarrow> int \<Rightarrow> 'a tables_scheme" where
  "insert_weight cursor pokemon_id w =
     cursor\<lparr>weight := insert_or_ignore fst (pokemon_id, w) (weight cursor)\<rparr>"

definition insert_pokemon_type :: "'a tables_scheme \<Rightarrow> int \<Rightarrow> int \<Rightarrow> 'a tables_scheme" where
  "insert_pokemon_type cursor pokemon_id type_id =
     cursor\<lparr>pokemon_type := insert_or_ignore id (pokemon_id, type_id) (pokemon_type cursor)\<rparr>"

definition insert_pokemon_stat ::
  "'a tables_scheme \<Rightarrow> int \<Rightarrow> int \<Rightarrow> int \<Rightarrow> 'a tables_scheme" where
  "insert_pokemon_stat cursor pokemon_id stat_id v =
     cursor\<lparr>pokemon_stat := insert_or_ignore id (pokemon_id, stat_id, v) (pokemon_stat cursor)\<rparr>"

definition insert_pokemon_move :: "'a tables_scheme \<Rightarrow> int \<Rightarrow> int \<Rightarrow> 'a tables_scheme" where
  "insert_pokemon_move cursor pokemon_id move_id =
     cursor\<lparr>pokemon_move := insert_or_ignore id (pokemon_id, move_id) (pokemon_move cursor)\<rparr>"

definition insert_pokemon_number :: "'a tables_scheme \<Rightarrow> int \<Rightarrow> int \<Rightarrow> 'a tables_scheme" where
  "insert_pokemon_number cursor pokemon_id dex_id =
     cursor\<lparr>pokemon_number := insert_or_ignore id (pokemon_id, dex_id) (pokemon_number cursor)\<rparr>"

text \<open>
  \<^verbatim>\<open>SELECT COUNT(*) FROM pokemon WHERE pokemon_id IN (?, ?)\<close> counts the rows whose id is
  one of the two; the edge is written only when that count is 2.
\<close>

definition insert_evolution :: "'a tables_scheme \<Rightarrow> int \<Rightarrow> int \<Rightarrow> 'a tables_scheme" where
  "insert_evolution cursor from_pokemon_id to_pokemon_id =
     (let count = length (filter (\<lambda>row. fst row = from_pokemon_id \<or> fst row = to_pokemon_id)
                            (pokemon cursor))
      in if count = 2
         then cursor\<lparr>evolutions :=
                insert_or_ignore id (from_pokemon_id, to_pokemon_id) (evolutions cursor)\<rparr>
         else cursor)"

definition get_loaded_pokemon_ids :: "'a tables_scheme \<Rightarrow> int set" where
  "get_loaded_pokemon_ids cursor = set (map fst (pokemon cursor))"

text \<open>The primary key of the record table, as an invariant of the stored rows.\<close>

definition pokemon_key_ok :: "'a tables_scheme \<Rightarrow> bool" where
  "pokemon_key_ok cursor = distinct (map fst (pokemon cursor))"

subsection \<open>The connection: tables, storage settings and the effects of a run\<close>

datatype delay = RequestDelay | Backoff nat

datatype event =
    HttpCount
  | HttpPokemon int
  | HttpSpecies int
  | HttpChain string
  | Sleep delay
  | Commit
  | ErrorPrinted
  | Closed

record state = tables +
  foreign_keys :: bool
  synchronous :: string
  journal_mode :: string
  cache_size :: int
  temp_store :: string
  trace :: "event list"

definition emit :: "event \<Rightarrow> state \<Rightarrow> state" where
  "emit e s = s\<lparr>trace := trace s @ [e]\<rparr>"

definition commit :: "state \<Rightarrow> state" where
  "commit s = emit Commit s"

definition bulk_insert :: "state \<Rightarrow> state" where
  "bulk_insert s =
     s\<lparr>synchronous := ''OFF'', journal_mode := ''MEMORY'', cache_size := 10000,
       temp_store := ''MEMORY''\<rparr>"

definition restore_sqlite_settings :: "state \<Rightarrow> state" where
  "restore_sqlite_settings s =
     s\<lparr>synchronous := ''NORMAL'', journal_mode := ''DELETE'', cache_size := - 2000,
       temp_store := ''DEFAULT''\<rparr>"



text \<open>Every stored evolution edge has both endpoints in the record table.\<close>

definition referential :: "'a tables_scheme \<Rightarrow> bool" where
  "referential cursor =
     (\<forall>(a, b) \<in> set (evolutions cursor).
        a \<in> get_loaded_pokemon_ids cursor \<and> b \<in> get_loaded_pokemon_ids cursor)"

section \<open>The upstream service\<close>

text \<open>
  One HTTP GET either yields the decoded document, fails with a status that
  \<^verbatim>\<open>raise_for_status\<close> turns into \<^verbatim>\<open>HTTPError\<close>, fails otherwise (transport, decoding),
  or is cut by the user's interrupt. A run is given the answers of the service as
  functions of the request, so that two runs can be given the same answers.
\<close>

datatype 'a response = Ok 'a | HttpError nat | Failure | Interrupted

text \<open>
  Documents are read at the keys the loader reads. A key read with \<^verbatim>\<open>d[k]\<close> is an
  option (absent raises \<^verbatim>\<open>KeyError\<close>); a key read with \<^verbatim>\<open>d.get(k, default)\<close> is an
  option completed by the default. Values are assumed to have the JSON type the loader
  expects. \<open>pd_other\<close> and \<open>sd_other\<close> say whether the object has further keys, which
  matters only for the truth value of the object (\<^verbatim>\<open>if not pokemon_data\<close>).
\<close>

datatype named_ref = NamedRef (ref_url: "string option") (ref_name: "string option")

datatype stat_info = StatInfo (si_stat: "named_ref option") (si_base_stat: "int option")

datatype dex_entry = DexEntry (de_pokedex: "named_ref option") (de_entry_number: "int option")

record pokemon_doc =
  pd_name :: "string option"
  pd_height :: "int option"
  pd_weight :: "int option"
  pd_types :: "named_ref option list option"
  pd_stats :: "stat_info list option"
  pd_moves :: "named_ref option list option"
  pd_other :: bool

record species_doc =
  sd_pokedex_numbers :: "dex_entry list option"
  sd_evolution_chain :: "string option option"
  sd_other :: bool

datatype chain = Chain (chain_species_url: "string option") (chain_evolves_to: "chain list")

record upstream =
  count_response :: "nat \<Rightarrow> int option response"
  pokemon_response :: "int \<Rightarrow> pokemon_doc response"
  species_response :: "int \<Rightarrow> species_doc response"
  chain_response :: "string \<Rightarrow> chain option response"
  sleep_interrupted :: "int \<Rightarrow> bool"

definition empty_pokemon_doc :: "pokemon_doc \<Rightarrow> bool" where
  "empty_pokemon_doc d =
     (pd_name d = None \<and> pd_height d = None \<and> pd_weight d = None \<and> pd_types d = None
      \<and> pd_stats d = None \<and> pd_moves d = None \<and> \<not> pd_other d)"

definition empty_species_doc :: "species_doc \<Rightarrow> bool" where
  "empty_species_doc d =
     (sd_pokedex_numbers d = None \<and> sd_evolution_chain d = None \<and> \<not> sd_other d)"

definition get_or :: "'a option \<Rightarrow> 'a \<Rightarrow> 'a" where
  "get_or v d = (case v of None \<Rightarrow> d | Some x \<Rightarrow> x)"

subsection \<open>Record fetcher\<close>

definition fetch_pokemon_data ::
  "upstream \<Rightarrow> int \<Rightarrow> state \<Rightarrow> (error + pokemon_doc option) \<times> state" where
  "fetch_pokemon_data up pokemon_id s =
     (let s1 = emit (HttpPokemon pokemon_id) s
      in case pokemon_response up pokemon_id of
           Ok d \<Rightarrow> (Inr (Some d), s1)
         | HttpError code \<Rightarrow>
             if code = 404 then (Inr None, s1) else (Inr None, emit ErrorPrinted s1)
         | Failure \<Rightarrow> (Inr None, emit ErrorPrinted s1)
         | Interrupted \<Rightarrow> (Inl KeyboardInterrupt, s1))"

definition fetch_species_data ::
  "upstream \<Rightarrow> int \<Rightarrow> state \<Rightarrow> (error + species_doc option) \<times> state" where
  "fetch_species_data up pokemon_id s =
     (let s1 = emit (HttpSpecies pokemon_id) s
      in case species_response up pokemon_id of
           Ok d \<Rightarrow> (Inr (Some d), s1)
         | HttpError code \<Rightarrow>
             if code = 404 then (Inr None, s1) else (Inr None, emit ErrorPrinted s1)
         | Failure \<Rightarrow> (Inr None, emit ErrorPrinted s1)
         | Interrupted \<Rightarrow> (Inl KeyboardInterrupt, s1))"

text \<open>
  The count probe: \<^verbatim>\<open>for attempt in range(max_retries)\<close>, counted down by the number of
  attempts left. A request failure is retried after \<^verbatim>\<open>2 ** attempt\<close> seconds unless it
  was the last attempt; a document without \<^verbatim>\<open>count\<close> is fatal at once.
\<close>

fun count_attempts :: "upstream \<Rightarrow> nat \<Rightarrow> nat \<Rightarrow> state \<Rightarrow> (error + int) \<times> state" where
  "count_attempts up max_retries 0 s = (Inl LoadError, s)"
| "count_attempts up max_retries (Suc left) s =
     (let attempt = max_retries - Suc left;
          s1 = emit HttpCount s
      in case count_response up attempt of
           Ok (Some n) \<Rightarrow> (Inr n, s1)
         | Ok None \<Rightarrow> (Inl LoadError, s1)
         | Interrupted \<Rightarrow> (Inl KeyboardInterrupt, s1)
         | _ \<Rightarrow>
             if attempt < max_retries - 1
             then count_attempts up max_retries left
                    (emit (Sleep (Backoff attempt)) (emit ErrorPrinted s1))
             else (Inl LoadError, s1))"

definition get_pokemon_count :: "upstream \<Rightarrow> state \<Rightarrow> (error + int) \<times> state" where
  "get_pokemon_count up s = count_attempts up 3 3 s"

section \<open>Evolution chain collector\<close>

text \<open>
  The argument \<open>acc\<close> is the list \<^verbatim>\<open>evolutions\<close> that the source mutates in place; the
  model passes it through. When an exception leaves the traversal the accumulator is lost with
  it, as the caller's variable is never assigned.
\<close>

fun collect_evolution_chain ::
    "chain \<Rightarrow> int option \<Rightarrow> (int \<times> int) list option \<Rightarrow> error + (int \<times> int) list"
  and collect_evolves_to ::
    "chain list \<Rightarrow> int \<Rightarrow> (int \<times> int) list \<Rightarrow> error + (int \<times> int) list" where
  "collect_evolution_chain (Chain su ev) parent_id acc =
     (let acc0 = get_or acc []
      in case su of
           None \<Rightarrow> Inl KeyError
         | Some species_url \<Rightarrow>
             (case extract_pokemon_id_from_url
                     (replace ''pokemon-species'' ''pokemon'' species_url) of
                Inl e \<Rightarrow> Inl e
              | Inr pokemon_id \<Rightarrow>
                  collect_evolves_to ev pokemon_id
                    (case parent_id of
                       None \<Rightarrow> acc0
                     | Some p \<Rightarrow> acc0 @ [(p, pokemon_id)])))"
| "collect_evolves_to [] pokemon_id acc = Inr acc"
| "collect_evolves_to (evolution # rest) pokemon_id acc =
     (case collect_evolution_chain evolution (Some pokemon_id) (Some acc) of
        Inl e \<Rightarrow> Inl e
      | Inr acc' \<Rightarrow> collect_evolves_to rest pokemon_id acc')"

text \<open>
  The tree of the specification: a node is a species id with its children in order. The
  edges of a traversal that carries the parent's id, in the specification's words.
\<close>

datatype node = Node int "node list"

fun dfs_edges :: "int option \<Rightarrow> node \<Rightarrow> (int \<times> int) list" where
  "dfs_edges parent (Node i children) =
     (case parent of None \<Rightarrow> [] | Some p \<Rightarrow> [(p, i)])
     @ concat (map (dfs_edges (Some i)) children)"

text \<open>The typed tree that a chain document denotes, when every species reference parses.\<close>

fun node_of :: "chain \<Rightarrow> node option" and nodes_of :: "chain list \<Rightarrow> node list option" where
  "node_of (Chain su ev) =
     (case su of
        None \<Rightarrow> None
      | Some species_url \<Rightarrow>
          (case extract_pokemon_id_from_url
                  (replace ''pokemon-species'' ''pokemon'' species_url) of
             Inl e \<Rightarrow> None
           | Inr i \<Rightarrow> (case nodes_of ev of None \<Rightarrow> None | Some ns \<Rightarrow> Some (Node i ns))))"
| "nodes_of [] = Some []"
| "nodes_of (c # cs) =
     (case node_of c of
        None \<Rightarrow> None
      | Some n \<Rightarrow> (case nodes_of cs of None \<Rightarrow> None | Some ns \<Rightarrow> Some (n # ns)))"

section \<open>Per-record processing\<close>

text \<open>
  A \<^verbatim>\<open>for\<close> loop whose body may raise: the rows written before the exception stay in
  the cursor, and the exception leaves the loop.
\<close>

fun for_each :: "('x \<Rightarrow> 's \<Rightarrow> error + 's) \<Rightarrow> 'x list \<Rightarrow> 's \<Rightarrow> error option \<times> 's" where
  "for_each body [] s = (None, s)"
| "for_each body (x # xs) s =
     (case body x s of
        Inl e \<Rightarrow> (Some e, s)
      | Inr s' \<Rightarrow> for_each body xs s')"

definition type_step :: "int \<Rightarrow> named_ref option \<Rightarrow> 'a tables_scheme \<Rightarrow> error + 'a tables_scheme" where
  "type_step pokemon_id type_info cursor =
     (case type_info of
        None \<Rightarrow> Inl KeyError
      | Some type_data \<Rightarrow>
          (case ref_url type_data of
             None \<Rightarrow> Inl KeyError
           | Some u \<Rightarrow>
               (case extract_pokemon_id_from_url u of
                  Inl e \<Rightarrow> Inl e
                | Inr type_id \<Rightarrow>
                    (case ref_name type_data of
                       None \<Rightarrow> Inl KeyError
                     | Some type_name \<Rightarrow>
                         Inr (insert_pokemon_type (insert_type cursor type_id type_name)
                                pokemon_id type_id)))))"

definition stat_step :: "int \<Rightarrow> stat_info \<Rightarrow> 'a tables_scheme \<Rightarrow> error + 'a tables_scheme" where
  "stat_step pokemon_id stat_info cursor =
     (case si_stat stat_info of
        None \<Rightarrow> Inl KeyError
      | Some stat_data \<Rightarrow>
          (case ref_url stat_data of
             None \<Rightarrow> Inl KeyError
           | Some u \<Rightarrow>
               (case extract_pokemon_id_from_url u of
                  Inl e \<Rightarrow> Inl e
                | Inr stat_id \<Rightarrow>
                    (case ref_name stat_data of
                       None \<Rightarrow> Inl KeyError
                     | Some stat_name \<Rightarrow>
                         Inr (insert_pokemon_stat (insert_stat cursor stat_id stat_name)
                                pokemon_id stat_id (get_or (si_base_stat stat_info) 0))))))"

definition move_step :: "int \<Rightarrow> named_ref option \<Rightarrow> 'a tables_scheme \<Rightarrow> error + 'a tables_scheme" where
  "move_step pokemon_id move_info cursor =
     (case move_info of
        None \<Rightarrow> Inl KeyError
      | Some move_data \<Rightarrow>
          (case ref_url move_data of
             None \<Rightarrow> Inl KeyError
           | Some u \<Rightarrow>
               (case extract_pokemon_id_from_url u of
                  Inl e \<Rightarrow> Inl e
                | Inr move_id \<Rightarrow>
                    (case ref_name move_data of
                       None \<Rightarrow> Inl KeyError
                     | Some move_name \<Rightarrow>
                         Inr (insert_pokemon_move (insert_move cursor move_id move_name)
                                pokemon_id move_id)))))"

definition dex_step :: "int \<Rightarrow> dex_entry \<Rightarrow> 'a tables_scheme \<Rightarrow> error + 'a tables_scheme" where
  "dex_step pokemon_id entry cursor =
     (case de_pokedex entry of
        None \<Rightarrow> Inl KeyError
      | Some dex_data \<Rightarrow>
          (case ref_url dex_data of
             None \<Rightarrow> Inl KeyError
           | Some u \<Rightarrow>
               (case extract_pokemon_id_from_url u of
                  Inl e \<Rightarrow> Inl e
                | Inr dex_id \<Rightarrow>
                    (case ref_name dex_data of
                       None \<Rightarrow> Inl KeyError
                     | Some dex_name \<Rightarrow>
                         Inr (insert_pokemon_number (insert_dex cursor dex_id dex_name)
                                pokemon_id dex_id)))))"

text \<open>
  The part of \<^verbatim>\<open>process_pokemon\<close> under \<^verbatim>\<open>if species_data\<close>: the dex rows, then the
  evolution chain. The handler around the chain request is \<^verbatim>\<open>except Exception\<close>: it
  turns every failure of the request or of the traversal into an empty edge list, and
  lets the interrupt through.
\<close>

definition process_species ::
  "upstream \<Rightarrow> int \<Rightarrow> species_doc option \<Rightarrow> state \<Rightarrow> (error + (int \<times> int) list option) \<times> state" where
  "process_species up pokemon_id species_data s =
     (case species_data of
        None \<Rightarrow> (Inr (Some []), s)
      | Some sd \<Rightarrow>
          if empty_species_doc sd then (Inr (Some []), s)
          else
            (case for_each (dex_step pokemon_id) (get_or (sd_pokedex_numbers sd) []) s of
               (Some e, s1) \<Rightarrow> (Inl e, s1)
             | (None, s1) \<Rightarrow>
                 (case get_or (sd_evolution_chain sd) None of
                    None \<Rightarrow> (Inr (Some []), s1)
                  | Some evolution_chain_url \<Rightarrow>
                      if evolution_chain_url = [] then (Inr (Some []), s1)
                      else
                        (let s2 = emit (HttpChain evolution_chain_url) s1
                         in case chain_response up evolution_chain_url of
                              Interrupted \<Rightarrow> (Inl KeyboardInterrupt, s2)
                            | Ok None \<Rightarrow> (Inr (Some []), s2)
                            | Ok (Some chain) \<Rightarrow>
                                (case collect_evolution_chain chain None None of
                                   Inr edges \<Rightarrow> (Inr (Some edges), s2)
                                 | Inl e \<Rightarrow> (Inr (Some []), emit ErrorPrinted s2))
                            | _ \<Rightarrow> (Inr (Some []), emit ErrorPrinted s2)))))"

text \<open>
  \<^verbatim>\<open>process_pokemon\<close>, in two parts. \<open>write_rows\<close> is the part from the comment
  \<^verbatim>\<open># Insert Pokemon\<close> on: the record row first, then height and weight, the type, stat
  and move rows, and the species part. An exception leaves the rows written so far in the
  cursor.
\<close>

definition write_rows ::
  "upstream \<Rightarrow> int \<Rightarrow> pokemon_doc \<Rightarrow> species_doc option \<Rightarrow> string \<Rightarrow> state
     \<Rightarrow> (error + (int \<times> int) list option) \<times> state" where
  "write_rows up pokemon_id pokemon_data species_data pokemon_name s2 =
     (let s3 = insert_pokemon s2 pokemon_id pokemon_name;
          s4 = insert_height s3 pokemon_id (get_or (pd_height pokemon_data) 0);
          s5 = insert_weight s4 pokemon_id (get_or (pd_weight pokemon_data) 0)
      in case for_each (type_step pokemon_id) (get_or (pd_types pokemon_data) []) s5 of
           (Some e, s6) \<Rightarrow> (Inl e, s6)
         | (None, s6) \<Rightarrow>
             (case for_each (stat_step pokemon_id) (get_or (pd_stats pokemon_data) []) s6 of
                (Some e, s7) \<Rightarrow> (Inl e, s7)
              | (None, s7) \<Rightarrow>
                  (case for_each (move_step pokemon_id)
                          (get_or (pd_moves pokemon_data) []) s7 of
                     (Some e, s8) \<Rightarrow> (Inl e, s8)
                   | (None, s8) \<Rightarrow> process_species up pokemon_id species_data s8)))"

definition process_pokemon ::
  "upstream \<Rightarrow> state \<Rightarrow> int \<Rightarrow> (error + (int \<times> int) list option) \<times> state" where
  "process_pokemon up cursor pokemon_id =
     (case fetch_pokemon_data up pokemon_id cursor of
        (Inl e, s1) \<Rightarrow> (Inl e, s1)
      | (Inr None, s1) \<Rightarrow> (Inr None, s1)
      | (Inr (Some pokemon_data), s1) \<Rightarrow>
          if empty_pokemon_doc pokemon_data then (Inr None, s1)
          else
            (case fetch_species_data up pokemon_id s1 of
               (Inl e, s2) \<Rightarrow> (Inl e, s2)
             | (Inr species_data, s2) \<Rightarrow>
                 (case pd_name pokemon_data of
                    None \<Rightarrow> (Inl KeyError, s2)
                  | Some pokemon_name \<Rightarrow>
                      write_rows up pokemon_id pokemon_data species_data pokemon_name s2)))"

section \<open>Load orchestrator\<close>

record counters =
  success_count :: nat
  skipped_count :: nat
  fail_count :: nat

text \<open>
  The loop over \<^verbatim>\<open>range(1, total_pokemon + 1)\<close>. An id of the resume set takes the
  \<^verbatim>\<open>continue\<close>: nothing after it in the body runs. The interrupt can arrive during a
  request or during the delay.
\<close>

fun main_loop ::
  "upstream \<Rightarrow> int set \<Rightarrow> int list \<Rightarrow> counters \<Rightarrow> (int \<times> int) list \<Rightarrow> state
     \<Rightarrow> (error + counters \<times> (int \<times> int) list) \<times> state" where
  "main_loop up loaded_pokemon [] cnt all_evolutions s = (Inr (cnt, all_evolutions), s)"
| "main_loop up loaded_pokemon (pokemon_id # ids) cnt all_evolutions s =
     (if pokemon_id \<in> loaded_pokemon
      then main_loop up loaded_pokemon ids
             (cnt\<lparr>skipped_count := skipped_count cnt + 1\<rparr>) all_evolutions s
      else
        (case process_pokemon up s pokemon_id of
           (Inl e, s1) \<Rightarrow> (Inl e, s1)
         | (Inr result, s1) \<Rightarrow>
             (let cnt1 = (case result of
                            Some edges \<Rightarrow> cnt\<lparr>success_count := success_count cnt + 1\<rparr>
                          | None \<Rightarrow> cnt\<lparr>fail_count := fail_count cnt + 1\<rparr>);
                  all1 = (case result of
                            Some edges \<Rightarrow> all_evolutions @ edges
                          | None \<Rightarrow> all_evolutions);
                  s2 = (if pokemon_id mod 10 = 0 then commit s1 else s1);
                  s3 = emit (Sleep RequestDelay) s2
              in if sleep_interrupted up pokemon_id then (Inl KeyboardInterrupt, s3)
                 else main_loop up loaded_pokemon ids cnt1 all1 s3)))"

text \<open>
  \<^verbatim>\<open>list(set(all_evolutions))\<close> lists every distinct edge once, in an order that the
  source does not fix; the model takes the order of first occurrence.
\<close>

definition insert_evolutions :: "'a tables_scheme \<Rightarrow> (int \<times> int) list \<Rightarrow> 'a tables_scheme" where
  "insert_evolutions cursor unique_evolutions =
     foldl (\<lambda>c (from_id, to_id). insert_evolution c from_id to_id) cursor unique_evolutions"

text \<open>The body of the \<^verbatim>\<open>try\<close> block of \<^verbatim>\<open>main\<close>.\<close>

definition main_try :: "upstream \<Rightarrow> state \<Rightarrow> (error + counters) \<times> state" where
  "main_try up s =
     (let loaded_pokemon = get_loaded_pokemon_ids s
      in case get_pokemon_count up s of
           (Inl e, s1) \<Rightarrow> (Inl e, s1)
         | (Inr total_pokemon, s1) \<Rightarrow>
             (case main_loop up loaded_pokemon [1..total_pokemon]
                     \<lparr>success_count = 0, skipped_count = 0, fail_count = 0\<rparr> [] s1 of
                (Inl e, s2) \<Rightarrow> (Inl e, s2)
              | (Inr (cnt, all_evolutions), s2) \<Rightarrow>
                  (let unique_evolutions = remdups all_evolutions;
                       s3 = insert_evolutions s2 unique_evolutions;
                       s4 = commit s3
                   in (Inr cnt, s4))))"

text \<open>
  \<^verbatim>\<open>main\<close>: the settings are changed before the \<^verbatim>\<open>try\<close>; the \<^verbatim>\<open>finally\<close> block runs
  whatever the body returned or raised, and the exception, if any, goes on to the caller
  afterwards. The argument is the connection as \<^verbatim>\<open>sqlite3.connect\<close> opened it.
\<close>

definition main :: "upstream \<Rightarrow> state \<Rightarrow> (error + counters) \<times> state" where
  "main up conn =
     (let s1 = bulk_insert (conn\<lparr>foreign_keys := True\<rparr>);
          (r, s2) = main_try up s1;
          s3 = restore_sqlite_settings s2;
          s4 = commit s3;
          s5 = emit Closed s4
      in (r, s5))"

text \<open>The tables a later run finds: those of the connection when it was closed.\<close>

definition reopen :: "state \<Rightarrow> state" where
  "reopen s = s\<lparr>trace := []\<rparr>"

section \<open>Query console: parameters of a read-only query\<close>

datatype pyval = PStr string | PInt int

definition truthy :: "pyval \<Rightarrow> bool" where
  "truthy v = (case v of PStr s \<Rightarrow> s \<noteq> [] | PInt n \<Rightarrow> n \<noteq> 0)"

function str_nat :: "nat \<Rightarrow> string" where
  "str_nat n =
     (if n < 10 then [char_of (48 + n)]
      else str_nat (n div 10) @ [char_of (48 + n mod 10)])"
  by pat_completeness auto
termination
  by (relation "measure id") auto

definition py_str :: "pyval \<Rightarrow> string" where
  "py_str v =
     (case v of
        PStr s \<Rightarrow> s
      | PInt n \<Rightarrow> (if n < 0 then CHR ''-'' # str_nat (nat (- n)) else str_nat (nat n)))"

definition int_of_val :: "pyval \<Rightarrow> error + int" where
  "int_of_val v = (case v of PInt n \<Rightarrow> Inr n | PStr s \<Rightarrow> py_int s)"

definition lower :: "string \<Rightarrow> string" where
  "lower s =
     map (\<lambda>c. if 65 \<le> (of_char c :: nat) \<and> (of_char c :: nat) \<le> 90
               then char_of (of_char c + (32 :: nat)) else c) s"

fun join :: "string \<Rightarrow> string list \<Rightarrow> string" where
  "join sep [] = []"
| "join sep [x] = x"
| "join sep (x # y # ys) = x @ sep @ join sep (y # ys)"

definition split_types :: "string \<Rightarrow> string list" where
  "split_types user_input =
     map (\<lambda>t. lower (strip t)) (filter (\<lambda>t. strip t \<noteq> []) (split CHR '','' user_input))"

text \<open>
  A parameter descriptor, read with \<^verbatim>\<open>param.get\<close>: an absent key takes the default of
  the call (\<^verbatim>\<open>'value'\<close>, \<^verbatim>\<open>'str'\<close>, \<^verbatim>\<open>''\<close>). The prompt is only printed.
\<close>

record param =
  p_name :: "string option"
  p_type :: "string option"
  p_default :: "pyval option"

text \<open>
  One turn of the loop over \<^verbatim>\<open>input_params\<close> of a read-only query, for the line
  \<open>raw\<close> that \<^verbatim>\<open>input\<close> returned. \<open>fmt\<close> stands for \<^verbatim>\<open>str.format\<close> with one argument,
  the language's formatting of the query template. \<open>None\<close> for the chosen input is the
  \<^verbatim>\<open>continue\<close> of the source.
\<close>

definition choose_input :: "string \<Rightarrow> pyval \<Rightarrow> string \<Rightarrow> string option" where
  "choose_input param_type param_default user_input =
     (if user_input = [] \<and> truthy param_default then Some (py_str param_default)
      else if user_input = [] then
        (if param_type = ''like'' then Some ''%''
         else if param_type = ''int'' then
           (if truthy param_default then Some (py_str param_default) else None)
         else if param_type = ''in'' then
           (if truthy param_default then Some (py_str param_default) else None)
         else Some [])
      else Some user_input)"

definition read_param ::
  "(string \<Rightarrow> string \<Rightarrow> error + string) \<Rightarrow> param \<Rightarrow> string \<Rightarrow> string \<Rightarrow> pyval list
     \<Rightarrow> error + string \<times> pyval list" where
  "read_param fmt param raw query_to_execute param_values =
     (let param_name = get_or (p_name param) ''value'';
          param_type = get_or (p_type param) ''str'';
          param_default = get_or (p_default param) (PStr [])
      in case choose_input param_type param_default (strip raw) of
           None \<Rightarrow> Inr (query_to_execute, param_values)
         | Some user_input \<Rightarrow>
             if param_type = ''like'' then
               Inr (query_to_execute,
                    param_values @ [PStr (if CHR ''%'' \<notin> set user_input
                                          then ''%'' @ user_input @ ''%'' else user_input)])
             else if param_type = ''in'' then
               (let type_list = split_types user_input
                in if type_list \<noteq> [] then
                     (case fmt query_to_execute
                             (join '','' (map (\<lambda>t. ''?'') type_list)) of
                        Inl e \<Rightarrow> Inl e
                      | Inr q \<Rightarrow> Inr (q, param_values @ map PStr type_list))
                   else if truthy param_default then
                     (case param_default of
                        PInt n \<Rightarrow> Inl AttributeError
                      | PStr d \<Rightarrow>
                          (case fmt query_to_execute
                                  (join '','' (map (\<lambda>t. ''?'') (split_types d))) of
                             Inl e \<Rightarrow> Inl e
                           | Inr q \<Rightarrow> Inr (q, param_values @ map PStr (split_types d))))
                   else Inl ValueError)
             else if param_type = ''int'' then
               (case py_int user_input of
                  Inr transformed_value \<Rightarrow>
                    Inr (query_to_execute, param_values @ [PInt transformed_value])
                | Inl e \<Rightarrow>
                    if truthy param_default then
                      (case int_of_val param_default of
                         Inl e' \<Rightarrow> Inl e'
                       | Inr d \<Rightarrow> Inr (query_to_execute, param_values @ [PInt d]))
                    else Inr (query_to_execute, param_values @ [PInt 0]))
             else if param_type = ''str'' then
               Inr (query_to_execute,
                    param_values @ [PStr (if param_name = ''move_name''
                                          then lower user_input else user_input)])
             else Inr (query_to_execute, param_values @ [PStr user_input]))"

text \<open>
  The loop: one line of input per parameter; \<^verbatim>\<open>input\<close> raises \<^verbatim>\<open>EOFError\<close> when the
  input has ended.
\<close>

fun read_params ::
  "(string \<Rightarrow> string \<Rightarrow> error + string) \<Rightarrow> param list \<Rightarrow> string list \<Rightarrow> string \<Rightarrow> pyval list
     \<Rightarrow> error + string \<times> pyval list" where
  "read_params fmt [] inputs query_to_execute param_values =
     Inr (query_to_execute, param_values)"
| "read_params fmt (param # params) [] query_to_execute param_values = Inl EOFError"
| "read_params fmt (param # params) (raw # inputs) query_to_execute param_values =
     (case read_param fmt param raw query_to_execute param_values of
        Inl e \<Rightarrow> Inl e
      | Inr (q, vs) \<Rightarrow> read_params fmt params inputs q vs)"

text \<open>
  What \<^verbatim>\<open>execute_query\<close> does for a read-only query other than number 13: the statement
  and the bound values passed to \<^verbatim>\<open>cursor.execute\<close>, or the exception that made it
  return \<^verbatim>\<open>False\<close> before that call.
\<close>

datatype outcome = Executed string "pyval list" | Aborted error

definition execute_query ::
  "(string \<Rightarrow> string \<Rightarrow> error + string) \<Rightarrow> string \<Rightarrow> param list \<Rightarrow> string list \<Rightarrow> outcome" where
  "execute_query fmt query_text input_params inputs =
     (let query = strip query_text
      in if input_params \<noteq> [] then
           (case read_params fmt input_params inputs query [] of
              Inl e \<Rightarrow> Aborted e
            | Inr (query_to_execute, param_values) \<Rightarrow> Executed query_to_execute param_values)
         else Executed query [])"

section \<open>Observations on a run\<close>

text \<open>The stored rows of a connection, without its settings and its trace.\<close>

definition stored :: "'a tables_scheme \<Rightarrow> tables" where
  "stored c = \<lparr>pokemon = pokemon c, types = types c, stats = stats c, moves = moves c,
     dex = dex c, height = height c, weight = weight c, pokemon_type = pokemon_type c,
     pokemon_stat = pokemon_stat c, pokemon_move = pokemon_move c,
     pokemon_number = pokemon_number c, evolutions = evolutions c\<rparr>"

text \<open>No table holds two rows with the same key.\<close>

definition keys_ok :: "'a tables_scheme \<Rightarrow> bool" where
  "keys_ok c =
     (distinct (map fst (pokemon c)) \<and> distinct (map fst (types c))
      \<and> distinct (map fst (stats c)) \<and> distinct (map fst (moves c))
      \<and> distinct (map fst (dex c)) \<and> distinct (map fst (height c))
      \<and> distinct (map fst (weight c)) \<and> distinct (pokemon_type c)
      \<and> distinct (pokemon_stat c) \<and> distinct (pokemon_move c)
      \<and> distinct (pokemon_number c) \<and> distinct (evolutions c))"

text \<open>
  The attribute and relationship rows that belong to one record id: its height and weight
  and its type, stat, move and dex rows.
\<close>

definition relational ::
  "int \<Rightarrow> 'a tables_scheme
     \<Rightarrow> (int \<times> int) list \<times> (int \<times> int) list \<times> (int \<times> int) list \<times> (int \<times> int \<times> int) list
        \<times> (int \<times> int) list \<times> (int \<times> int) list" where
  "relational pokemon_id c =
     (filter (\<lambda>r. fst r = pokemon_id) (height c),
      filter (\<lambda>r. fst r = pokemon_id) (weight c),
      filter (\<lambda>r. fst r = pokemon_id) (pokemon_type c),
      filter (\<lambda>r. fst r = pokemon_id) (pokemon_stat c),
      filter (\<lambda>r. fst r = pokemon_id) (pokemon_move c),
      filter (\<lambda>r. fst r = pokemon_id) (pokemon_number c))"

text \<open>
  Read off a trace: the ids whose primary record was requested, in order; the number of
  rate-limit delays; the number of commits; whether an event is an HTTP request.
\<close>

definition requested :: "event list \<Rightarrow> int list" where
  "requested t = concat (map (\<lambda>e. case e of HttpPokemon i \<Rightarrow> [i] | _ \<Rightarrow> []) t)"

definition delays :: "event list \<Rightarrow> nat" where
  "delays t = length (filter (\<lambda>e. e = Sleep RequestDelay) t)"

definition commits :: "event list \<Rightarrow> nat" where
  "commits t = length (filter (\<lambda>e. e = Commit) t)"

text \<open>
  The primary fetch of an id answers "absent": \<^verbatim>\<open>fetch_pokemon_data\<close> returns
  \<^verbatim>\<open>None\<close>, or a document that counts as false.
\<close>

definition absent_upstream :: "upstream \<Rightarrow> int \<Rightarrow> bool" where
  "absent_upstream up pokemon_id =
     (case pokemon_response up pokemon_id of
        Ok d \<Rightarrow> empty_pokemon_doc d
      | Interrupted \<Rightarrow> False
      | _ \<Rightarrow> True)"

text \<open>
  The answers of the service for an id let \<^verbatim>\<open>process_pokemon\<close> reach its first write,
  the record row: a primary document that counts as true and has a name, and a species
  request that is not cut by the interrupt.
\<close>

definition record_written :: "upstream \<Rightarrow> int \<Rightarrow> bool" where
  "record_written up pokemon_id =
     (case pokemon_response up pokemon_id of
        Ok d \<Rightarrow>
          \<not> empty_pokemon_doc d \<and> pd_name d \<noteq> None
          \<and> species_response up pokemon_id \<noteq> Interrupted
      | _ \<Rightarrow> False)"

text \<open>
  A property of the connection that every step of \<^verbatim>\<open>process_pokemon\<close> for one id keeps:
  the requests and messages after the primary fetch, the writes of shared category rows,
  and the writes of rows that carry this id.
\<close>

definition closed_for :: "int \<Rightarrow> (state \<Rightarrow> bool) \<Rightarrow> bool" where
  "closed_for pokemon_id P =
     ((\<forall>s. P s \<longrightarrow> P (emit (HttpSpecies pokemon_id) s))
      \<and> (\<forall>s u. P s \<longrightarrow> P (emit (HttpChain u) s))
      \<and> (\<forall>s. P s \<longrightarrow> P (emit ErrorPrinted s))
      \<and> (\<forall>s n. P s \<longrightarrow> P (insert_pokemon s pokemon_id n))
      \<and> (\<forall>s v. P s \<longrightarrow> P (insert_height s pokemon_id v))
      \<and> (\<forall>s v. P s \<longrightarrow> P (insert_weight s pokemon_id v))
      \<and> (\<forall>s i n. P s \<longrightarrow> P (insert_type s i n))
      \<and> (\<forall>s i n. P s \<longrightarrow> P (insert_stat s i n))
      \<and> (\<forall>s i n. P s \<longrightarrow> P (insert_move s i n))
      \<and> (\<forall>s i n. P s \<longrightarrow> P (insert_dex s i n))
      \<and> (\<forall>s i. P s \<longrightarrow> P (insert_pokemon_type s pokemon_id i))
      \<and> (\<forall>s i v. P s \<longrightarrow> P (insert_pokemon_stat s pokemon_id i v))
      \<and> (\<forall>s i. P s \<longrightarrow> P (insert_pokemon_move s pokemon_id i))
      \<and> (\<forall>s i. P s \<longrightarrow> P (insert_pokemon_number s pokemon_id i)))"

text \<open>The same for the loop: also the primary request, the batch commit and the delay.\<close>

definition loop_closed :: "int \<Rightarrow> (state \<Rightarrow> bool) \<Rightarrow> bool" where
  "loop_closed pokemon_id P =
     (closed_for pokemon_id P
      \<and> (\<forall>s. P s \<longrightarrow> P (emit (HttpPokemon pokemon_id) s))
      \<and> (\<forall>s. P s \<longrightarrow> P (commit s))
      \<and> (\<forall>s. P s \<longrightarrow> P (emit (Sleep RequestDelay) s)))"

section \<open>Example inputs\<close>

definition no_rows :: tables where
  "no_rows = \<lparr>pokemon = [], types = [], stats = [], moves = [], dex = [], height = [],
     weight = [], pokemon_type = [], pokemon_stat = [], pokemon_move = [],
     pokemon_number = [], evolutions = []\<rparr>"

definition lone_record :: tables where
  "lone_record = no_rows\<lparr>pokemon := [(133, ''eevee'')]\<rparr>"

definition two_records :: tables where
  "two_records = no_rows\<lparr>pokemon := [(1, ''bulbasaur''), (2, ''ivysaur'')]\<rparr>"

definition fresh_conn :: state where
  "fresh_conn = \<lparr>pokemon = [], types = [], stats = [], moves = [], dex = [], height = [],
     weight = [], pokemon_type = [], pokemon_stat = [], pokemon_move = [],
     pokemon_number = [], evolutions = [], foreign_keys = False, synchronous = ''FULL'',
     journal_mode = ''DELETE'', cache_size = - 2000, temp_store = ''DEFAULT'', trace = []\<rparr>"

definition no_counts :: counters where
  "no_counts = \<lparr>success_count = 0, skipped_count = 0, fail_count = 0\<rparr>"

text \<open>
  The scenario of the specification: three ids, of which id 2 answers 404; ids 1 and 3
  have one type and one stat each and share the evolution chain 1 \<rightarrow> 3.
\<close>

definition doc_of :: "string \<Rightarrow> pokemon_doc" where
  "doc_of nm = \<lparr>pd_name = Some nm, pd_height = Some 7, pd_weight = Some 69,
     pd_types = Some [Some (NamedRef (Some ''https://pokeapi.co/api/v2/type/12/'')
                                       (Some ''grass''))],
     pd_stats = Some [StatInfo (Some (NamedRef (Some ''https://pokeapi.co/api/v2/stat/1/'')
                                                 (Some ''hp''))) (Some 45)],
     pd_moves = None, pd_other = True\<rparr>"

definition species13 :: species_doc where
  "species13 = \<lparr>sd_pokedex_numbers = None,
     sd_evolution_chain = Some (Some ''https://pokeapi.co/api/v2/evolution-chain/1/''),
     sd_other = True\<rparr>"

definition chain13 :: chain where
  "chain13 = Chain (Some ''https://pokeapi.co/api/v2/pokemon-species/1/'')
     [Chain (Some ''https://pokeapi.co/api/v2/pokemon-species/3/'') []]"

definition three_ids :: upstream where
  "three_ids = \<lparr>count_response = (\<lambda>attempt. Ok (Some 3)),
     pokemon_response = (\<lambda>i. if i = 1 then Ok (doc_of ''bulbasaur'')
                               else if i = 3 then Ok (doc_of ''venusaur'') else HttpError 404),
     species_response = (\<lambda>i. if i = 1 \<or> i = 3 then Ok species13 else HttpError 404),
     chain_response = (\<lambda>u. Ok (Some chain13)),
     sleep_interrupted = (\<lambda>i. False)\<rparr>"


text \<open>
  A service with a single id, whose document has a name, a height and a weight and nothing
  else, and no species record; and the same service with the user's interrupt arriving
  during the delay after id 1.
\<close>

definition plain_doc :: pokemon_doc where
  "plain_doc = \<lparr>pd_name = Some ''ditto'', pd_height = Some 3, pd_weight = Some 40,
     pd_types = None, pd_stats = None, pd_moves = None, pd_other = False\<rparr>"

definition one_plain :: upstream where
  "one_plain = \<lparr>count_response = (\<lambda>attempt. Ok (Some 1)),
     pokemon_response = (\<lambda>i. if i = 1 then Ok plain_doc else HttpError 404),
     species_response = (\<lambda>i. HttpError 404),
     chain_response = (\<lambda>u. Failure),
     sleep_interrupted = (\<lambda>i. False)\<rparr>"


text \<open>A store with one row in every table.\<close>

definition full_store :: tables where
  "full_store = \<lparr>pokemon = [(1, ''bulbasaur'')], types = [(12, ''grass'')],
     stats = [(1, ''hp'')], moves = [(33, ''tackle'')], dex = [(2, ''kanto'')],
     height = [(1, 7)], weight = [(1, 69)], pokemon_type = [(1, 12)],
     pokemon_stat = [(1, 1, 45)], pokemon_move = [(1, 33)], pokemon_number = [(1, 2)],
     evolutions = [(1, 2)]\<rparr>"



text \<open>A store in which ids 1 and 3 are loaded, and a chain whose root reference is malformed.\<close>

definition loaded_13 :: tables where
  "loaded_13 = no_rows\<lparr>pokemon := [(1, ''bulbasaur''), (3, ''venusaur'')]\<rparr>"

definition bad_chain :: chain where
  "bad_chain = Chain (Some ''https://pokeapi.co/api/v2/pokemon-species/one/'') [chain13]"

text \<open>An integer parameter of a read-only query that declares no default.\<close>

definition int_param :: param where
  "int_param = \<lparr>p_name = Some ''max_id'', p_type = Some ''int'', p_default = None\<rparr>"

section \<open>Verified properties\<close>

subsection \<open>Strings and the reference extractor\<close>

























subsection \<open>The edge upsert\<close>

lemma count_in_distinct:
  "distinct (map fst rows) \<Longrightarrow>
   length (filter (\<lambda>row. fst row = a \<or> fst row = b) rows) =
     (if a \<in> fst ` set rows then 1 else 0) + (if b \<in> fst ` set rows \<and> b \<noteq> a then 1 else 0)"
proof (induction rows)
  case Nil
  show ?case by simp
next
  case (Cons r rows)
  then have d: "distinct (map fst rows)" and n: "fst r \<notin> fst ` set rows"
    by auto
  show ?case
    using Cons.IH [OF d] n by (cases "fst r = a"; cases "fst r = b"; force)
qed

lemma count_two_iff:
  "distinct (map fst rows) \<Longrightarrow>
   (length (filter (\<lambda>row. fst row = a \<or> fst row = b) rows) = 2) =
     (a \<in> fst ` set rows \<and> b \<in> fst ` set rows \<and> a \<noteq> b)"
  by (auto simp: count_in_distinct)

lemma set_insert_or_ignore_id: "set (insert_or_ignore id r t) = insert r (set t)"
  by (auto simp: insert_or_ignore_def)

lemma insert_evolution_eq:
  "pokemon_key_ok cursor \<Longrightarrow>
   insert_evolution cursor a b =
     (if a \<in> get_loaded_pokemon_ids cursor \<and> b \<in> get_loaded_pokemon_ids cursor \<and> a \<noteq> b
      then cursor\<lparr>evolutions := insert_or_ignore id (a, b) (evolutions cursor)\<rparr>
      else cursor)"
  by (simp add: insert_evolution_def Let_def count_two_iff pokemon_key_ok_def
      get_loaded_pokemon_ids_def)

text \<open>
  C1, as the specification states it, fails for an edge from a record to itself: the
  record exists, so both endpoint ids exist, but the check counts one row, not two, and
  the edge is dropped.
\<close>

theorem insert_evolution_self_edge_counterexample:
  "pokemon_key_ok lone_record
   \<and> 133 \<in> get_loaded_pokemon_ids lone_record
   \<and> (133, 133) \<notin> set (evolutions (insert_evolution lone_record 133 133))"
  by (simp add: lone_record_def no_rows_def pokemon_key_ok_def get_loaded_pokemon_ids_def
      insert_evolution_def)

text \<open>
  C1, amended: on a record table whose ids are unique, the edge upsert inserts the edge
  (from_id, to_id) exactly when both ids are rows of the pokemon table and the two ids
  differ, and otherwise leaves the database unchanged. After the call the edge is stored
  exactly when it was stored before or was inserted, and if every stored edge had both
  endpoints in the record table before the call, so it is afterwards.
\<close>

theorem insert_evolution_endpoints:
  "pokemon_key_ok cursor \<Longrightarrow>
   insert_evolution cursor a b =
     (if a \<in> get_loaded_pokemon_ids cursor \<and> b \<in> get_loaded_pokemon_ids cursor \<and> a \<noteq> b
      then cursor\<lparr>evolutions := insert_or_ignore id (a, b) (evolutions cursor)\<rparr>
      else cursor)
   \<and> ((a, b) \<in> set (evolutions (insert_evolution cursor a b)) \<longleftrightarrow>
        (a, b) \<in> set (evolutions cursor)
        \<or> (a \<in> get_loaded_pokemon_ids cursor \<and> b \<in> get_loaded_pokemon_ids cursor \<and> a \<noteq> b))
   \<and> (referential cursor \<longrightarrow> referential (insert_evolution cursor a b))"
proof -
  assume k: "pokemon_key_ok cursor"
  note eq = insert_evolution_eq [OF k, of a b]
  have m: "(a, b) \<in> set (evolutions (insert_evolution cursor a b)) \<longleftrightarrow>
        (a, b) \<in> set (evolutions cursor)
        \<or> (a \<in> get_loaded_pokemon_ids cursor \<and> b \<in> get_loaded_pokemon_ids cursor \<and> a \<noteq> b)"
    by (auto simp: eq set_insert_or_ignore_id)
  have r: "referential cursor \<longrightarrow> referential (insert_evolution cursor a b)"
    by (auto simp: eq referential_def set_insert_or_ignore_id get_loaded_pokemon_ids_def)
  from eq m r show ?thesis by blast
qed

theorem insert_evolution_endpoints_witness:
  "pokemon_key_ok two_records \<and> referential two_records
   \<and> evolutions (insert_evolution two_records 1 2) = [(1, 2)]
   \<and> insert_evolution two_records 1 3 = two_records
   \<and> referential (insert_evolution two_records 1 2)"
proof -
  have k: "pokemon_key_ok two_records"
    by (simp add: two_records_def no_rows_def pokemon_key_ok_def)
  have r: "referential two_records"
    by (simp add: two_records_def no_rows_def referential_def)
  have l: "get_loaded_pokemon_ids two_records = {1, 2}"
    by (auto simp: two_records_def no_rows_def get_loaded_pokemon_ids_def)
  have e: "evolutions two_records = []"
    by (simp add: two_records_def no_rows_def)
  have c12: "evolutions (insert_evolution two_records 1 2) = [(1, 2)]"
    using insert_evolution_endpoints [OF k, of 1 2] by (simp add: l e insert_or_ignore_def)
  have r12: "referential (insert_evolution two_records 1 2)"
    using insert_evolution_endpoints [OF k, of 1 2] r by blast
  have c13: "insert_evolution two_records 1 3 = two_records"
    using insert_evolution_endpoints [OF k, of 1 3] by (simp add: l)
  show ?thesis using k r c12 r12 c13 by blast
qed

subsection \<open>What every step of a run preserves\<close>

lemma for_each_invariant:
  assumes "\<And>x c c'. body x c = Inr c' \<Longrightarrow> P c \<Longrightarrow> P c'" and "P s"
  shows "P (snd (for_each body xs s))"
  using assms(2)
proof (induction xs arbitrary: s)
  case Nil
  then show ?case by simp
next
  case (Cons x xs)
  show ?case
  proof (cases "body x s")
    case (Inl e)
    then show ?thesis using Cons.prems by simp
  next
    case (Inr s')
    then show ?thesis using Cons.IH [of s'] assms(1) [OF Inr Cons.prems] by simp
  qed
qed

lemma type_step_closed:
  "closed_for pid P \<Longrightarrow> type_step pid x s = Inr s' \<Longrightarrow> P s \<Longrightarrow> P s'"
  by (auto simp: type_step_def closed_for_def split: option.splits sum.splits)

lemma stat_step_closed:
  "closed_for pid P \<Longrightarrow> stat_step pid x s = Inr s' \<Longrightarrow> P s \<Longrightarrow> P s'"
  by (auto simp: stat_step_def closed_for_def split: option.splits sum.splits)

lemma move_step_closed:
  "closed_for pid P \<Longrightarrow> move_step pid x s = Inr s' \<Longrightarrow> P s \<Longrightarrow> P s'"
  by (auto simp: move_step_def closed_for_def split: option.splits sum.splits)

lemma dex_step_closed:
  "closed_for pid P \<Longrightarrow> dex_step pid x s = Inr s' \<Longrightarrow> P s \<Longrightarrow> P s'"
  by (auto simp: dex_step_def closed_for_def split: option.splits sum.splits)

lemma process_species_closed:
  assumes c: "closed_for pid P" and p: "P s"
  shows "P (snd (process_species up pid sp s))"
proof (cases sp)
  case None
  then show ?thesis using p by (simp add: process_species_def)
next
  case (Some sd)
  define s1 where "s1 = snd (for_each (dex_step pid) (get_or (sd_pokedex_numbers sd) []) s)"
  have p1: "P s1"
    unfolding s1_def using dex_step_closed [OF c] p by (rule for_each_invariant)
  have e1: "\<And>u. P (emit (HttpChain u) s1)" and e2: "\<And>u. P (emit ErrorPrinted (emit (HttpChain u) s1))"
    using c p1 by (auto simp: closed_for_def)
  show ?thesis
    using p p1 e1 e2 Some
    by (auto simp: process_species_def s1_def Let_def
        split: prod.splits option.splits response.splits sum.splits)
qed

lemma fetch_pokemon_closed:
  "closed_for pid P \<Longrightarrow> P (emit (HttpPokemon pid) s) \<Longrightarrow> P (snd (fetch_pokemon_data up pid s))"
  by (auto simp: fetch_pokemon_data_def Let_def closed_for_def split: response.splits)

lemma fetch_species_closed:
  "closed_for pid P \<Longrightarrow> P s \<Longrightarrow> P (snd (fetch_species_data up pid s))"
  by (auto simp: fetch_species_data_def Let_def closed_for_def split: response.splits)

lemma write_rows_closed:
  assumes c: "closed_for pid P" and p: "P (insert_pokemon s2 pid nm)"
  shows "P (snd (write_rows up pid d sp nm s2))"
proof -
  define s5 where
    "s5 = insert_weight (insert_height (insert_pokemon s2 pid nm) pid (get_or (pd_height d) 0))
            pid (get_or (pd_weight d) 0)"
  define s6 where "s6 = snd (for_each (type_step pid) (get_or (pd_types d) []) s5)"
  define s7 where "s7 = snd (for_each (stat_step pid) (get_or (pd_stats d) []) s6)"
  define s8 where "s8 = snd (for_each (move_step pid) (get_or (pd_moves d) []) s7)"
  have p5: "P s5" unfolding s5_def using c p by (simp add: closed_for_def)
  have p6: "P s6" unfolding s6_def using type_step_closed [OF c] p5 by (rule for_each_invariant)
  have p7: "P s7" unfolding s7_def using stat_step_closed [OF c] p6 by (rule for_each_invariant)
  have p8: "P s8" unfolding s8_def using move_step_closed [OF c] p7 by (rule for_each_invariant)
  have p9: "P (snd (process_species up pid sp s8))" using c p8 by (rule process_species_closed)
  have "write_rows up pid d sp nm s2 =
          (case for_each (type_step pid) (get_or (pd_types d) []) s5 of
             (Some e, t6) \<Rightarrow> (Inl e, t6)
           | (None, t6) \<Rightarrow>
               (case for_each (stat_step pid) (get_or (pd_stats d) []) t6 of
                  (Some e, t7) \<Rightarrow> (Inl e, t7)
                | (None, t7) \<Rightarrow>
                    (case for_each (move_step pid) (get_or (pd_moves d) []) t7 of
                       (Some e, t8) \<Rightarrow> (Inl e, t8)
                     | (None, t8) \<Rightarrow> process_species up pid sp t8)))"
    by (simp add: write_rows_def s5_def Let_def)
  then show ?thesis
    using p6 p7 p8 p9
    by (auto simp: s6_def s7_def s8_def split: prod.splits option.splits)
qed

lemma process_pokemon_closed:
  assumes c: "closed_for pid P" and p: "P (emit (HttpPokemon pid) s)"
  shows "P (snd (process_pokemon up s pid))"
proof -
  define s1 where "s1 = snd (fetch_pokemon_data up pid s)"
  define s2 where "s2 = snd (fetch_species_data up pid s1)"
  have p1: "P s1" unfolding s1_def using c p by (rule fetch_pokemon_closed)
  have p2: "P s2" unfolding s2_def using c p1 by (rule fetch_species_closed)
  have p3: "P (insert_pokemon s2 pid nm)" for nm
    using c p2 by (simp add: closed_for_def)
  have p4: "P (snd (write_rows up pid d sp nm s2))" for d sp nm
    using c p3 by (rule write_rows_closed)
  show ?thesis
    using p1 p2 p4
    by (auto simp: process_pokemon_def s1_def s2_def split: prod.splits sum.splits option.splits)
qed

lemma main_loop_closed:
  assumes c: "\<And>i. i \<in> set ids \<Longrightarrow> i \<notin> loaded \<Longrightarrow> loop_closed i P" and p: "P s"
  shows "P (snd (main_loop up loaded ids cnt all s))"
  using c p
proof (induction ids arbitrary: cnt all s)
  case Nil
  then show ?case by simp
next
  case (Cons i ids)
  show ?case
  proof (cases "i \<in> loaded")
    case True
    then show ?thesis using Cons by simp
  next
    case False
    have lc: "loop_closed i P" using Cons.prems(1) [of i] False by simp
    then have cf: "closed_for i P" by (simp add: loop_closed_def)
    have "P (emit (HttpPokemon i) s)" using lc Cons.prems(2) by (simp add: loop_closed_def)
    then have p1: "P (snd (process_pokemon up s i))"
      using cf by (rule process_pokemon_closed [rotated])
    obtain r s1 where pp: "process_pokemon up s i = (r, s1)"
      by (cases "process_pokemon up s i")
    with p1 have ps1: "P s1" by simp
    then have p3: "P (emit (Sleep RequestDelay) (if i mod 10 = 0 then commit s1 else s1))"
      using lc by (simp add: loop_closed_def)
    show ?thesis
    proof (cases r)
      case (Inl e)
      then show ?thesis using False pp ps1 by simp
    next
      case (Inr res)
      show ?thesis
      proof (cases "sleep_interrupted up i")
        case True
        then show ?thesis using False pp Inr p3 by (simp add: Let_def)
      next
        case ni: False
        have "P (snd (main_loop up loaded ids
                  (case res of Some edges \<Rightarrow> cnt\<lparr>success_count := success_count cnt + 1\<rparr>
                   | None \<Rightarrow> cnt\<lparr>fail_count := fail_count cnt + 1\<rparr>)
                  (case res of Some edges \<Rightarrow> all @ edges | None \<Rightarrow> all)
                  (emit (Sleep RequestDelay) (if i mod 10 = 0 then commit s1 else s1))))"
          using Cons.prems(1) p3 by (intro Cons.IH) auto
        then show ?thesis using False pp Inr ni by (simp add: Let_def)
      qed
    qed
  qed
qed

lemmas upsert_defs =
  insert_pokemon_def insert_type_def insert_stat_def insert_move_def insert_dex_def
  insert_height_def insert_weight_def insert_pokemon_type_def insert_pokemon_stat_def
  insert_pokemon_move_def insert_pokemon_number_def

lemma distinct_insert_or_ignore_key:
  "distinct (map key t) \<Longrightarrow> distinct (map key (insert_or_ignore key r t))"
  by (auto simp: insert_or_ignore_def)

lemma distinct_insert_or_ignore_id: "distinct t \<Longrightarrow> distinct (insert_or_ignore id r t)"
  by (auto simp: insert_or_ignore_def)

lemma insert_or_ignore_present: "key r \<in> key ` set t \<Longrightarrow> insert_or_ignore key r t = t"
  by (simp add: insert_or_ignore_def)

lemma filter_insert_or_ignore_other:
  "\<not> Q r \<Longrightarrow> filter Q (insert_or_ignore key r t) = filter Q t"
  by (simp add: insert_or_ignore_def)

lemma fst_set_insert_or_ignore:
  "fst ` set (insert_or_ignore fst (k, v) t) = insert k (fst ` set t)"
  by (auto simp: insert_or_ignore_def image_iff)

lemma insert_evolution_pokemon [simp]: "pokemon (insert_evolution c a b) = pokemon c"
  by (simp add: insert_evolution_def Let_def)

lemma insert_evolution_trace [simp]: "trace (insert_evolution c a b) = trace c"
  by (simp add: insert_evolution_def Let_def)

lemma keys_ok_insert_evolution: "keys_ok c \<Longrightarrow> keys_ok (insert_evolution c a b)"
  by (simp add: insert_evolution_def Let_def keys_ok_def distinct_insert_or_ignore_id)

lemma keys_ok_closed: "loop_closed i keys_ok"
  by (simp add: loop_closed_def closed_for_def keys_ok_def upsert_defs emit_def commit_def
      distinct_insert_or_ignore_key distinct_insert_or_ignore_id)


lemma loaded_closed: "loop_closed i (\<lambda>s. j \<in> get_loaded_pokemon_ids s)"
  by (auto simp: loop_closed_def closed_for_def upsert_defs emit_def commit_def
      get_loaded_pokemon_ids_def insert_or_ignore_def)

lemma stored_emit [simp]: "stored (emit e s) = stored s"
  by (simp add: stored_def emit_def)

lemma stored_commit [simp]: "stored (commit s) = stored s"
  by (simp add: commit_def)

lemma relational_closed:
  "i \<noteq> pid \<Longrightarrow> loop_closed i (\<lambda>s. relational pid s = R)"
  by (simp add: loop_closed_def closed_for_def upsert_defs emit_def commit_def relational_def
      filter_insert_or_ignore_other)

lemma requested_append [simp]: "requested (t @ u) = requested t @ requested u"
  by (simp add: requested_def)

lemma delays_append [simp]: "delays (t @ u) = delays t + delays u"
  by (simp add: delays_def)

lemma commits_append [simp]: "commits (t @ u) = commits t + commits u"
  by (simp add: commits_def)

lemma trace_closed:
  "closed_for i (\<lambda>s. requested (trace s) = r \<and> delays (trace s) = d \<and> commits (trace s) = c)"
  by (simp add: closed_for_def upsert_defs emit_def requested_def delays_def commits_def)

lemma process_pokemon_trace:
  "requested (trace (snd (process_pokemon up s pid))) = requested (trace s) @ [pid]
   \<and> delays (trace (snd (process_pokemon up s pid))) = delays (trace s)
   \<and> commits (trace (snd (process_pokemon up s pid))) = commits (trace s)"
  by (rule process_pokemon_closed [OF trace_closed])
     (simp add: emit_def requested_def delays_def commits_def)

lemma process_species_not_None: "fst (process_species up pid sp s) \<noteq> Inr None"
  by (auto simp: process_species_def Let_def
      split: option.splits prod.splits response.splits sum.splits)

lemma write_rows_not_None: "fst (write_rows up pid d sp nm s) \<noteq> Inr None"
  using process_species_not_None
  by (auto simp: write_rows_def Let_def split: option.splits prod.splits)

lemma process_pokemon_absent:
  "absent_upstream up pid \<Longrightarrow>
   fst (process_pokemon up s pid) = Inr None \<and> stored (snd (process_pokemon up s pid)) = stored s"
  by (auto simp: absent_upstream_def process_pokemon_def fetch_pokemon_data_def Let_def
      split: response.splits)

lemma process_pokemon_None_iff:
  "fst (process_pokemon up s pid) = Inr None \<longleftrightarrow> absent_upstream up pid"
proof
  assume "absent_upstream up pid"
  then show "fst (process_pokemon up s pid) = Inr None"
    by (simp add: process_pokemon_absent)
next
  assume a: "fst (process_pokemon up s pid) = Inr None"
  show "absent_upstream up pid"
  proof (rule ccontr)
    assume n: "\<not> absent_upstream up pid"
    show False
    proof (cases "pokemon_response up pid")
      case (Ok d)
      with n have ne: "\<not> empty_pokemon_doc d" by (simp add: absent_upstream_def)
      from a Ok ne write_rows_not_None show False
        by (auto simp: process_pokemon_def fetch_pokemon_data_def Let_def
            split: prod.splits sum.splits option.splits)
    next
      case Interrupted
      with a show False
        by (simp add: process_pokemon_def fetch_pokemon_data_def Let_def)
    qed (use n in \<open>simp_all add: absent_upstream_def\<close>)
  qed
qed

lemma process_pokemon_reaches_write:
  assumes "record_written up pid"
  shows "\<exists>d sp nm s2. process_pokemon up s pid = write_rows up pid d sp nm s2
                       \<and> stored s2 = stored s"
proof -
  from assms obtain d nm where ok: "pokemon_response up pid = Ok d"
    and ne: "\<not> empty_pokemon_doc d" and nm: "pd_name d = Some nm"
    and ni: "species_response up pid \<noteq> Interrupted"
    by (auto simp: record_written_def split: response.splits)
  have "\<exists>sp s2. fetch_species_data up pid (emit (HttpPokemon pid) s) = (Inr sp, s2)
                  \<and> stored s2 = stored s"
    using ni by (cases "species_response up pid") (auto simp: fetch_species_data_def Let_def)
  then obtain sp s2 where f: "fetch_species_data up pid (emit (HttpPokemon pid) s) = (Inr sp, s2)"
    and st: "stored s2 = stored s"
    by blast
  have "process_pokemon up s pid = write_rows up pid d sp nm s2"
    using ok ne nm f by (simp add: process_pokemon_def fetch_pokemon_data_def Let_def)
  with st show ?thesis by blast
qed

lemma process_pokemon_record_present:
  assumes "record_written up pid"
  shows "pid \<in> get_loaded_pokemon_ids (snd (process_pokemon up s pid))"
proof -
  from process_pokemon_reaches_write [OF assms, of s]
  obtain d sp nm s2 where e: "process_pokemon up s pid = write_rows up pid d sp nm s2"
    by blast
  have c: "closed_for pid (\<lambda>s. pid \<in> get_loaded_pokemon_ids s)"
    using loaded_closed [of pid pid] by (simp add: loop_closed_def)
  have "pid \<in> get_loaded_pokemon_ids (insert_pokemon s2 pid nm)"
    by (simp add: get_loaded_pokemon_ids_def insert_pokemon_def fst_set_insert_or_ignore)
  with c have "pid \<in> get_loaded_pokemon_ids (snd (write_rows up pid d sp nm s2))"
    by (rule write_rows_closed)
  then show ?thesis by (simp add: e)
qed

lemma process_pokemon_no_write:
  assumes "\<not> record_written up pid"
  shows "stored (snd (process_pokemon up s pid)) = stored s"
    and "fst (process_pokemon up s pid) \<noteq> Inr (Some es)"
  using assms
  by (auto simp: record_written_def process_pokemon_def fetch_pokemon_data_def
      fetch_species_data_def Let_def split: response.splits option.splits)

lemma process_pokemon_Some_present:
  "fst (process_pokemon up s pid) = Inr (Some es) \<Longrightarrow>
   pid \<in> get_loaded_pokemon_ids (snd (process_pokemon up s pid))"
  using process_pokemon_no_write(2) process_pokemon_record_present by blast

subsection \<open>Steps of the loop\<close>

lemma main_loop_skip:
  "i \<in> loaded \<Longrightarrow>
   main_loop up loaded (i # ids) cnt all s =
     main_loop up loaded ids (cnt\<lparr>skipped_count := skipped_count cnt + 1\<rparr>) all s"
  by simp

lemma main_loop_abort:
  "i \<notin> loaded \<Longrightarrow> process_pokemon up s i = (Inl e, s1) \<Longrightarrow>
   main_loop up loaded (i # ids) cnt all s = (Inl e, s1)"
  by simp

lemma main_loop_step:
  "i \<notin> loaded \<Longrightarrow> process_pokemon up s i = (Inr res, s1) \<Longrightarrow>
   main_loop up loaded (i # ids) cnt all s =
     (if sleep_interrupted up i
      then (Inl KeyboardInterrupt,
            emit (Sleep RequestDelay) (if i mod 10 = 0 then commit s1 else s1))
      else main_loop up loaded ids
             (case res of Some edges \<Rightarrow> cnt\<lparr>success_count := success_count cnt + 1\<rparr>
              | None \<Rightarrow> cnt\<lparr>fail_count := fail_count cnt + 1\<rparr>)
             (case res of Some edges \<Rightarrow> all @ edges | None \<Rightarrow> all)
             (emit (Sleep RequestDelay) (if i mod 10 = 0 then commit s1 else s1)))"
  by (simp add: Let_def)

lemma main_loop_Inr_cases:
  assumes "main_loop up loaded (i # ids) cnt all s = (Inr out, s')" and "i \<notin> loaded"
  obtains res s1 where "process_pokemon up s i = (Inr res, s1)"
    and "\<not> sleep_interrupted up i"
    and "main_loop up loaded ids
             (case res of Some edges \<Rightarrow> cnt\<lparr>success_count := success_count cnt + 1\<rparr>
              | None \<Rightarrow> cnt\<lparr>fail_count := fail_count cnt + 1\<rparr>)
             (case res of Some edges \<Rightarrow> all @ edges | None \<Rightarrow> all)
             (emit (Sleep RequestDelay) (if i mod 10 = 0 then commit s1 else s1)) = (Inr out, s')"
proof -
  obtain r s1 where pp: "process_pokemon up s i = (r, s1)"
    by (cases "process_pokemon up s i")
  show thesis
  proof (cases r)
    case (Inl e)
    with assms pp show ?thesis by simp
  next
    case (Inr res)
    with assms pp have ni: "\<not> sleep_interrupted up i"
      by (auto simp: Let_def split: if_splits)
    from assms pp Inr ni show ?thesis
      by (intro that [of res s1]) (simp_all add: Let_def)
  qed
qed

lemma main_loop_counts:
  "main_loop up loaded ids cnt all s = (Inr (cnt', all'), s') \<Longrightarrow>
   requested (trace s') = requested (trace s) @ filter (\<lambda>i. i \<notin> loaded) ids
   \<and> delays (trace s') = delays (trace s) + length (filter (\<lambda>i. i \<notin> loaded) ids)
   \<and> commits (trace s')
       = commits (trace s) + length (filter (\<lambda>i. i \<notin> loaded \<and> i mod 10 = 0) ids)
   \<and> skipped_count cnt' = skipped_count cnt + length (filter (\<lambda>i. i \<in> loaded) ids)
   \<and> success_count cnt' + fail_count cnt'
       = success_count cnt + fail_count cnt + length (filter (\<lambda>i. i \<notin> loaded) ids)"
proof (induction ids arbitrary: cnt all s)
  case Nil
  then show ?case by simp
next
  case (Cons i ids)
  show ?case
  proof (cases "i \<in> loaded")
    case True
    with Cons.prems have "main_loop up loaded ids
        (cnt\<lparr>skipped_count := skipped_count cnt + 1\<rparr>) all s = (Inr (cnt', all'), s')"
      by simp
    from Cons.IH [OF this] True show ?thesis by simp
  next
    case False
    from Cons.prems False obtain res s1 where pp: "process_pokemon up s i = (Inr res, s1)"
      and rest: "main_loop up loaded ids
             (case res of Some edges \<Rightarrow> cnt\<lparr>success_count := success_count cnt + 1\<rparr>
              | None \<Rightarrow> cnt\<lparr>fail_count := fail_count cnt + 1\<rparr>)
             (case res of Some edges \<Rightarrow> all @ edges | None \<Rightarrow> all)
             (emit (Sleep RequestDelay) (if i mod 10 = 0 then commit s1 else s1))
           = (Inr (cnt', all'), s')"
      by (rule main_loop_Inr_cases)
    from process_pokemon_trace [of up s i] pp
    have t: "requested (trace s1) = requested (trace s) @ [i]"
      "delays (trace s1) = delays (trace s)" "commits (trace s1) = commits (trace s)"
      by simp_all
    have t3: "requested (trace (emit (Sleep RequestDelay) (if i mod 10 = 0 then commit s1 else s1)))
                = requested (trace s) @ [i]"
      "delays (trace (emit (Sleep RequestDelay) (if i mod 10 = 0 then commit s1 else s1)))
                = delays (trace s) + 1"
      "commits (trace (emit (Sleep RequestDelay) (if i mod 10 = 0 then commit s1 else s1)))
                = commits (trace s) + (if i mod 10 = 0 then 1 else 0)"
      using t by (simp_all add: emit_def commit_def requested_def delays_def commits_def)
    from Cons.IH [OF rest] False t3 show ?thesis
      by (cases res) simp_all
  qed
qed

subsection \<open>Skipping, failing and committing in the loop\<close>


lemma process_pokemon_404:
  "pokemon_response up pid = HttpError 404 \<Longrightarrow>
   process_pokemon up s pid = (Inr None, emit (HttpPokemon pid) s)"
  by (simp add: process_pokemon_def fetch_pokemon_data_def Let_def)

text \<open>
  C7: when the primary fetch of an id answers HTTP 404, the fetch returns \<open>None\<close> without
  raising and without printing an error; \<^verbatim>\<open>process_pokemon\<close> returns \<open>None\<close> and leaves
  every table as it was (the only effect is the request itself); and the loop, unless the
  user interrupts the delay, goes on to the next id with the failure counter increased by
  one and the collected edges unchanged.
\<close>

theorem not_found_is_absent:
  "pokemon_response up pid = HttpError 404 \<Longrightarrow>
     fetch_pokemon_data up pid s = (Inr None, emit (HttpPokemon pid) s)
   \<and> process_pokemon up s pid = (Inr None, emit (HttpPokemon pid) s)
   \<and> stored (snd (process_pokemon up s pid)) = stored s
   \<and> (pid \<notin> loaded \<and> \<not> sleep_interrupted up pid \<longrightarrow>
        main_loop up loaded (pid # ids) cnt all s =
          main_loop up loaded ids (cnt\<lparr>fail_count := fail_count cnt + 1\<rparr>) all
            (emit (Sleep RequestDelay)
               (if pid mod 10 = 0 then commit (emit (HttpPokemon pid) s)
                else emit (HttpPokemon pid) s)))"
proof -
  assume a: "pokemon_response up pid = HttpError 404"
  have f: "fetch_pokemon_data up pid s = (Inr None, emit (HttpPokemon pid) s)"
    using a by (simp add: fetch_pokemon_data_def Let_def)
  note p = process_pokemon_404 [OF a, of s]
  have st: "stored (snd (process_pokemon up s pid)) = stored s"
    by (simp add: p)
  have l: "pid \<notin> loaded \<and> \<not> sleep_interrupted up pid \<longrightarrow>
        main_loop up loaded (pid # ids) cnt all s =
          main_loop up loaded ids (cnt\<lparr>fail_count := fail_count cnt + 1\<rparr>) all
            (emit (Sleep RequestDelay)
               (if pid mod 10 = 0 then commit (emit (HttpPokemon pid) s)
                else emit (HttpPokemon pid) s))"
    using main_loop_step [of pid loaded up s None "emit (HttpPokemon pid) s" ids cnt all] p
    by simp
  from f p st l show ?thesis by blast
qed

theorem not_found_is_absent_witness:
  "pokemon_response three_ids 2 = HttpError 404
   \<and> process_pokemon three_ids fresh_conn 2 = (Inr None, emit (HttpPokemon 2) fresh_conn)
   \<and> stored (snd (process_pokemon three_ids fresh_conn 2)) = stored fresh_conn
   \<and> main_loop three_ids {} [2] no_counts [] fresh_conn =
       (Inr (no_counts\<lparr>fail_count := 1\<rparr>, []),
        emit (Sleep RequestDelay) (emit (HttpPokemon 2) fresh_conn))"
proof -
  have a: "pokemon_response three_ids 2 = HttpError 404"
    by (simp add: three_ids_def)
  have b: "(2::int) \<notin> {} \<and> \<not> sleep_interrupted three_ids 2"
    by (simp add: three_ids_def)
  from not_found_is_absent [OF a, of fresh_conn "{}" "[]" no_counts "[]"] a b
  show ?thesis by (simp add: no_counts_def)
qed





text \<open>
  C6, as the specification states it, fails: id 10 is a multiple of 10 and is in the resume
  set; the loop skips it and issues no commit.
\<close>

theorem no_commit_at_skipped_id_counterexample:
  "(10::int) mod 10 = 0
   \<and> main_loop three_ids {10} [10] no_counts [] fresh_conn =
        (Inr (no_counts\<lparr>skipped_count := 1\<rparr>, []), fresh_conn)
   \<and> Commit \<notin> set (trace (snd (main_loop three_ids {10} [10] no_counts [] fresh_conn)))"
  by (simp add: no_counts_def fresh_conn_def)

text \<open>
  C6, amended: a commit is issued at every id that is a multiple of 10 and is processed,
  whether the pipeline succeeded or failed for it; it comes after the pipeline and before
  the delay. An id of the resume set takes the \<^verbatim>\<open>continue\<close> of the loop before the
  commit check: the state is unchanged, so no commit is issued at a skipped id. Over a run
  of the loop that completes, the commits issued are as many as the processed ids that
  are multiples of 10.
\<close>

theorem commit_at_processed_multiples:
  "(i \<in> loaded \<longrightarrow>
      main_loop up loaded (i # ids) cnt all s =
        main_loop up loaded ids (cnt\<lparr>skipped_count := skipped_count cnt + 1\<rparr>) all s)
   \<and> (j \<notin> loaded \<and> process_pokemon up s j = (Inr res, s1) \<and> \<not> sleep_interrupted up j \<longrightarrow>
        commits (trace s1) = commits (trace s)
        \<and> main_loop up loaded (j # ids) cnt all s =
            main_loop up loaded ids
              (case res of Some edges \<Rightarrow> cnt\<lparr>success_count := success_count cnt + 1\<rparr>
               | None \<Rightarrow> cnt\<lparr>fail_count := fail_count cnt + 1\<rparr>)
              (case res of Some edges \<Rightarrow> all @ edges | None \<Rightarrow> all)
              (emit (Sleep RequestDelay) (if j mod 10 = 0 then commit s1 else s1)))
   \<and> (main_loop up loaded js cnt all s = (Inr (cnt', all'), s') \<longrightarrow>
        commits (trace s')
          = commits (trace s) + length (filter (\<lambda>j. j \<notin> loaded \<and> j mod 10 = 0) js))"
proof (intro conjI impI)
  assume "i \<in> loaded"
  then show "main_loop up loaded (i # ids) cnt all s =
        main_loop up loaded ids (cnt\<lparr>skipped_count := skipped_count cnt + 1\<rparr>) all s"
    by (rule main_loop_skip)
next
  assume a: "j \<notin> loaded \<and> process_pokemon up s j = (Inr res, s1) \<and> \<not> sleep_interrupted up j"
  from process_pokemon_trace [of up s j] a
  show "commits (trace s1) = commits (trace s)" by simp
  from a main_loop_step [of j loaded up s res s1 ids cnt all]
  show "main_loop up loaded (j # ids) cnt all s =
            main_loop up loaded ids
              (case res of Some edges \<Rightarrow> cnt\<lparr>success_count := success_count cnt + 1\<rparr>
               | None \<Rightarrow> cnt\<lparr>fail_count := fail_count cnt + 1\<rparr>)
              (case res of Some edges \<Rightarrow> all @ edges | None \<Rightarrow> all)
              (emit (Sleep RequestDelay) (if j mod 10 = 0 then commit s1 else s1))"
    by simp
next
  assume a: "main_loop up loaded js cnt all s = (Inr (cnt', all'), s')"
  from main_loop_counts [OF a]
  show "commits (trace s')
          = commits (trace s) + length (filter (\<lambda>j. j \<notin> loaded \<and> j mod 10 = 0) js)"
    by simp
qed

theorem commit_at_processed_multiples_witness:
  "(20::int) \<in> {20} \<and> (10::int) \<notin> {20}
   \<and> process_pokemon three_ids fresh_conn 10 = (Inr None, emit (HttpPokemon 10) fresh_conn)
   \<and> main_loop three_ids {20} [10, 20] no_counts [] fresh_conn =
        (Inr (no_counts\<lparr>fail_count := 1, skipped_count := 1\<rparr>, []),
         emit (Sleep RequestDelay) (commit (emit (HttpPokemon 10) fresh_conn)))
   \<and> commits (trace (emit (Sleep RequestDelay) (commit (emit (HttpPokemon 10) fresh_conn)))) = 1"
proof -
  have a: "pokemon_response three_ids 10 = HttpError 404"
    by (simp add: three_ids_def)
  note pp = process_pokemon_404 [OF a, of fresh_conn]
  have ni: "\<not> sleep_interrupted three_ids 10" by (simp add: three_ids_def)
  have run: "main_loop three_ids {20} [10, 20] no_counts [] fresh_conn =
        (Inr (no_counts\<lparr>fail_count := 1, skipped_count := 1\<rparr>, []),
         emit (Sleep RequestDelay) (commit (emit (HttpPokemon 10) fresh_conn)))"
    using pp ni by (simp add: Let_def no_counts_def)
  have t0: "commits (trace fresh_conn) = 0" by (simp add: fresh_conn_def commits_def)
  from commit_at_processed_multiples [where i = 20 and j = 10 and loaded = "{20}"
      and up = three_ids and s = fresh_conn and res = None
      and ?s1.0 = "emit (HttpPokemon 10) fresh_conn" and js = "[10, 20]"
      and cnt = no_counts and all = "[]"
      and cnt' = "no_counts\<lparr>fail_count := 1, skipped_count := 1\<rparr>" and all' = "[]"
      and s' = "emit (Sleep RequestDelay) (commit (emit (HttpPokemon 10) fresh_conn))"]
    run pp ni t0
  have "commits (trace (emit (Sleep RequestDelay) (commit (emit (HttpPokemon 10) fresh_conn)))) = 1"
    by simp
  with run pp show ?thesis by simp
qed

subsection \<open>The whole run\<close>

lemma count_attempts_closed:
  assumes e: "\<And>t ev. (\<forall>i. ev \<noteq> HttpPokemon i) \<Longrightarrow> P t \<Longrightarrow> P (emit ev t)" and p: "P s"
  shows "P (snd (count_attempts up m k s))"
  using p
proof (induction k arbitrary: s)
  case 0
  then show ?case by simp
next
  case (Suc k)
  have p1: "P (emit HttpCount s)" using _ Suc.prems by (rule e) simp
  have "P (emit ErrorPrinted (emit HttpCount s))" using _ p1 by (rule e) simp
  then have p2: "P (emit (Sleep (Backoff (m - Suc k))) (emit ErrorPrinted (emit HttpCount s)))"
    using _ by (rule e [rotated]) simp
  from Suc.IH [OF p2] p1 show ?case
    by (auto simp: Let_def split: response.splits option.splits)
qed

lemma count_attempts_fst:
  "fst (count_attempts up m k s) = fst (count_attempts up m k s')"
proof (induction k arbitrary: s s')
  case 0
  show ?case by simp
next
  case (Suc k)
  from Suc.IH [of "emit (Sleep (Backoff (m - Suc k))) (emit ErrorPrinted (emit HttpCount s))"
                  "emit (Sleep (Backoff (m - Suc k))) (emit ErrorPrinted (emit HttpCount s'))"]
  show ?case
    by (auto simp: Let_def split: response.splits option.splits)
qed

lemma insert_evolutions_closed:
  assumes "\<And>t a b. P t \<Longrightarrow> P (insert_evolution t a b)" and "P s"
  shows "P (insert_evolutions s es)"
  using assms(2)
proof (induction es arbitrary: s)
  case Nil
  then show ?case by (simp add: insert_evolutions_def)
next
  case (Cons e es)
  obtain a b where e: "e = (a, b)" by (cases e)
  from Cons.IH [OF assms(1) [OF Cons.prems, of a b]] show ?case
    by (simp add: insert_evolutions_def e)
qed

lemma main_try_closed:
  assumes l: "\<And>i. i \<notin> get_loaded_pokemon_ids s \<Longrightarrow> loop_closed i P"
    and e: "\<And>t ev. (\<forall>i. ev \<noteq> HttpPokemon i) \<Longrightarrow> P t \<Longrightarrow> P (emit ev t)"
    and v: "\<And>t a b. P t \<Longrightarrow> P (insert_evolution t a b)"
    and p: "P s"
  shows "P (snd (main_try up s))"
proof -
  obtain r s1 where c: "get_pokemon_count up s = (r, s1)"
    by (cases "get_pokemon_count up s")
  have p1: "P s1"
    using count_attempts_closed [where P = P and s = s and up = up and m = 3 and k = 3, OF e p] c
    by (simp add: get_pokemon_count_def)
  show ?thesis
  proof (cases r)
    case (Inl x)
    then show ?thesis using c p1 by (simp add: main_try_def)
  next
    case (Inr total)
    obtain r2 s2 where m: "main_loop up (get_loaded_pokemon_ids s) [1..total] 
        \<lparr>success_count = 0, skipped_count = 0, fail_count = 0\<rparr> [] s1 = (r2, s2)"
      by (cases "main_loop up (get_loaded_pokemon_ids s) [1..total] 
        \<lparr>success_count = 0, skipped_count = 0, fail_count = 0\<rparr> [] s1")
    have "P (snd (main_loop up (get_loaded_pokemon_ids s) [1..total]
        \<lparr>success_count = 0, skipped_count = 0, fail_count = 0\<rparr> [] s1))"
    proof (rule main_loop_closed [where P = P])
      show "loop_closed i P" if "i \<notin> get_loaded_pokemon_ids s" for i
        using that by (rule l)
      show "P s1" by (rule p1)
    qed
    then have p2: "P s2" using m by simp
    show ?thesis
    proof (cases r2)
      case (Inl x)
      then show ?thesis using c Inr m p2 by (simp add: main_try_def)
    next
      case out: (Inr out)
      obtain cnt all where o: "out = (cnt, all)" by (cases out)
      have "P (insert_evolutions s2 (remdups all))"
        using v p2 by (rule insert_evolutions_closed [where P = P])
      then have "P (commit (insert_evolutions s2 (remdups all)))"
        unfolding commit_def using _ by (rule e [rotated]) simp
      then show ?thesis using c Inr m out o by (simp add: main_try_def Let_def)
    qed
  qed
qed

lemma main_unfold:
  "main up conn =
     (fst (main_try up (bulk_insert (conn\<lparr>foreign_keys := True\<rparr>))),
      emit Closed (commit (restore_sqlite_settings
        (snd (main_try up (bulk_insert (conn\<lparr>foreign_keys := True\<rparr>)))))))"
  by (simp add: main_def Let_def split_def)

lemma loaded_bulk [simp]:
  "get_loaded_pokemon_ids (bulk_insert (conn\<lparr>foreign_keys := b\<rparr>)) = get_loaded_pokemon_ids conn"
  by (simp add: get_loaded_pokemon_ids_def bulk_insert_def)

lemma main_closed:
  assumes l: "\<And>i. i \<notin> get_loaded_pokemon_ids s \<Longrightarrow> loop_closed i P"
    and e: "\<And>t ev. (\<forall>i. ev \<noteq> HttpPokemon i) \<Longrightarrow> P t \<Longrightarrow> P (emit ev t)"
    and v: "\<And>t a b. P t \<Longrightarrow> P (insert_evolution t a b)"
    and r: "\<And>t. P t \<Longrightarrow> P (restore_sqlite_settings t)"
    and p: "P (bulk_insert (s\<lparr>foreign_keys := True\<rparr>))"
  shows "P (snd (main up s))"
proof -
  have "P (snd (main_try up (bulk_insert (s\<lparr>foreign_keys := True\<rparr>))))"
  proof (rule main_try_closed [where P = P])
    show "loop_closed i P" if "i \<notin> get_loaded_pokemon_ids (bulk_insert (s\<lparr>foreign_keys := True\<rparr>))" for i
      using that l [of i] by simp
    show "P (emit ev t)" if "\<forall>i. ev \<noteq> HttpPokemon i" "P t" for t ev
      using that by (rule e)
    show "P (insert_evolution t a b)" if "P t" for t a b
      using that by (rule v)
    show "P (bulk_insert (s\<lparr>foreign_keys := True\<rparr>))" by (rule p)
  qed
  then have "P (restore_sqlite_settings (snd (main_try up (bulk_insert (s\<lparr>foreign_keys := True\<rparr>)))))"
    by (rule r)
  then have "P (commit (restore_sqlite_settings
                 (snd (main_try up (bulk_insert (s\<lparr>foreign_keys := True\<rparr>))))))"
    unfolding commit_def using _ by (rule e [rotated]) simp
  then have "P (emit Closed (commit (restore_sqlite_settings
                 (snd (main_try up (bulk_insert (s\<lparr>foreign_keys := True\<rparr>)))))))"
    using _ by (rule e [rotated]) simp
  then show ?thesis by (simp add: main_unfold)
qed

lemma stored_bulk [simp]: "stored (bulk_insert (s\<lparr>foreign_keys := b\<rparr>)) = stored s"
  by (simp add: stored_def bulk_insert_def)

lemma stored_restore [simp]: "stored (restore_sqlite_settings s) = stored s"
  by (simp add: stored_def restore_sqlite_settings_def)



subsection \<open>Running the loader twice\<close>

lemma pokemon_stored: "pokemon (stored s) = pokemon s"
  by (simp add: stored_def)

lemma stored_pokemon:
  assumes "stored s = stored t"
  shows "pokemon s = pokemon t"
proof -
  have "pokemon (stored s) = pokemon (stored t)" by (simp only: assms)
  then show ?thesis by (simp only: pokemon_stored)
qed

lemma loaded_stored:
  assumes "stored s = stored t"
  shows "get_loaded_pokemon_ids s = get_loaded_pokemon_ids t"
  using stored_pokemon [OF assms] by (simp add: get_loaded_pokemon_ids_def)

lemma main_loop_loaded_mono:
  "j \<in> get_loaded_pokemon_ids s \<Longrightarrow>
   j \<in> get_loaded_pokemon_ids (snd (main_loop up loaded ids cnt all s))"
  by (rule main_loop_closed [where P = "\<lambda>t. j \<in> get_loaded_pokemon_ids t"])
     (rule loaded_closed)

lemma main_loop_done:
  "main_loop up loaded ids cnt all s = (Inr out, s') \<Longrightarrow> i \<in> set ids \<Longrightarrow>
   i \<in> loaded
   \<or> ((i \<in> get_loaded_pokemon_ids s' \<or> absent_upstream up i) \<and> \<not> sleep_interrupted up i)"
proof (induction ids arbitrary: cnt all s)
  case Nil
  then show ?case by simp
next
  case (Cons a ids)
  show ?case
  proof (cases "a \<in> loaded")
    case True
    with Cons.prems(1) have r: "main_loop up loaded ids
        (cnt\<lparr>skipped_count := skipped_count cnt + 1\<rparr>) all s = (Inr out, s')"
      by simp
    show ?thesis
    proof (cases "i = a")
      case True
      with \<open>a \<in> loaded\<close> show ?thesis by simp
    next
      case False
      with Cons.prems(2) have "i \<in> set ids" by simp
      with r show ?thesis by (rule Cons.IH)
    qed
  next
    case False
    from Cons.prems(1) False obtain res s1 where pp: "process_pokemon up s a = (Inr res, s1)"
      and ni: "\<not> sleep_interrupted up a"
      and rest: "main_loop up loaded ids
             (case res of Some edges \<Rightarrow> cnt\<lparr>success_count := success_count cnt + 1\<rparr>
              | None \<Rightarrow> cnt\<lparr>fail_count := fail_count cnt + 1\<rparr>)
             (case res of Some edges \<Rightarrow> all @ edges | None \<Rightarrow> all)
             (emit (Sleep RequestDelay) (if a mod 10 = 0 then commit s1 else s1)) = (Inr out, s')"
      by (rule main_loop_Inr_cases)
    show ?thesis
    proof (cases "i = a")
      case ia: True
      show ?thesis
      proof (cases res)
        case None
        with pp have "fst (process_pokemon up s a) = Inr None" by simp
        then have "absent_upstream up a" by (simp add: process_pokemon_None_iff)
        with ia ni show ?thesis by simp
      next
        case (Some es)
        with pp have "fst (process_pokemon up s a) = Inr (Some es)" by simp
        from process_pokemon_Some_present [OF this] pp
        have "a \<in> get_loaded_pokemon_ids s1" by simp
        then have "a \<in> get_loaded_pokemon_ids
                        (emit (Sleep RequestDelay) (if a mod 10 = 0 then commit s1 else s1))"
          by (simp add: get_loaded_pokemon_ids_def emit_def commit_def)
        from main_loop_loaded_mono [OF this, where up = up and loaded = loaded and ids = ids
            and cnt = "cnt\<lparr>success_count := success_count cnt + 1\<rparr>" and all = "all @ es"]
          rest Some
        have "a \<in> get_loaded_pokemon_ids s'" by simp
        with ia ni show ?thesis by simp
      qed
    next
      case False
      with Cons.prems(2) have "i \<in> set ids" by simp
      with rest show ?thesis by (rule Cons.IH)
    qed
  qed
qed

lemma main_loop_noop:
  "(\<And>i. i \<in> set ids \<Longrightarrow> i \<in> loaded \<or> (absent_upstream up i \<and> \<not> sleep_interrupted up i)) \<Longrightarrow>
   \<exists>cnt' s'. main_loop up loaded ids cnt all s = (Inr (cnt', all), s') \<and> stored s' = stored s"
proof (induction ids arbitrary: cnt s)
  case Nil
  show ?case by simp
next
  case (Cons a ids)
  have ih: "\<exists>cnt' s'. main_loop up loaded ids c all t = (Inr (cnt', all), s') \<and> stored s' = stored t"
    for c t
    by (rule Cons.IH) (use Cons.prems in simp)
  show ?case
  proof (cases "a \<in> loaded")
    case True
    then show ?thesis using ih [of "cnt\<lparr>skipped_count := skipped_count cnt + 1\<rparr>" s] by simp
  next
    case False
    with Cons.prems [of a] have ab: "absent_upstream up a" and ni: "\<not> sleep_interrupted up a"
      by simp_all
    obtain r s1 where pp: "process_pokemon up s a = (r, s1)"
      by (cases "process_pokemon up s a")
    with process_pokemon_absent [OF ab, of s] have r: "r = Inr None" and st: "stored s1 = stored s"
      by simp_all
    from ih [of "cnt\<lparr>fail_count := fail_count cnt + 1\<rparr>"
                "emit (Sleep RequestDelay) (if a mod 10 = 0 then commit s1 else s1)"]
    show ?thesis using False pp r ni st by (auto simp: Let_def)
  qed
qed

lemma get_pokemon_count_closed:
  assumes e: "\<And>t ev. (\<forall>i. ev \<noteq> HttpPokemon i) \<Longrightarrow> P t \<Longrightarrow> P (emit ev t)" and p: "P s"
  shows "P (snd (get_pokemon_count up s))"
  unfolding get_pokemon_count_def using e p by (rule count_attempts_closed [where P = P])

lemma get_pokemon_count_stored: "stored (snd (get_pokemon_count up s)) = stored s"
  by (rule get_pokemon_count_closed [where P = "\<lambda>t. stored t = stored s"]) simp_all

lemma get_pokemon_count_fst: "fst (get_pokemon_count up s) = fst (get_pokemon_count up s')"
  unfolding get_pokemon_count_def by (rule count_attempts_fst)

lemma main_try_Inr_cases:
  assumes "main_try up s = (Inr cnt, t)"
  obtains total s1 all s2 where "get_pokemon_count up s = (Inr total, s1)"
    and "main_loop up (get_loaded_pokemon_ids s) [1..total]
           \<lparr>success_count = 0, skipped_count = 0, fail_count = 0\<rparr> [] s1 = (Inr (cnt, all), s2)"
    and "t = commit (insert_evolutions s2 (remdups all))"
proof -
  obtain r s1 where c: "get_pokemon_count up s = (r, s1)"
    by (cases "get_pokemon_count up s")
  show thesis
  proof (cases r)
    case (Inl e)
    with assms c show ?thesis by (simp add: main_try_def)
  next
    case (Inr total)
    obtain r2 s2 where m: "main_loop up (get_loaded_pokemon_ids s) [1..total]
           \<lparr>success_count = 0, skipped_count = 0, fail_count = 0\<rparr> [] s1 = (r2, s2)"
      by (cases "main_loop up (get_loaded_pokemon_ids s) [1..total]
           \<lparr>success_count = 0, skipped_count = 0, fail_count = 0\<rparr> [] s1")
    show ?thesis
    proof (cases r2)
      case (Inl e)
      with assms c Inr m show ?thesis by (simp add: main_try_def)
    next
      case out: (Inr out)
      obtain c' all where o: "out = (c', all)" by (cases out)
      from assms c Inr m out o have "c' = cnt" "t = commit (insert_evolutions s2 (remdups all))"
        by (simp_all add: main_try_def Let_def)
      with c Inr m out o show ?thesis by (intro that [of total s1 all s2]) simp_all
    qed
  qed
qed

lemma insert_evolutions_pokemon [simp]: "pokemon (insert_evolutions s es) = pokemon s"
  by (rule insert_evolutions_closed [where P = "\<lambda>t. pokemon t = pokemon s"]) simp_all

lemma count_loaded:
  "j \<in> get_loaded_pokemon_ids s \<Longrightarrow> j \<in> get_loaded_pokemon_ids (snd (get_pokemon_count up s))"
  by (rule get_pokemon_count_closed [where P = "\<lambda>t. j \<in> get_loaded_pokemon_ids t"])
     (simp_all add: get_loaded_pokemon_ids_def emit_def)

lemma main_try_second_run:
  assumes first: "main_try up s = (Inr cnt, t)" and same: "stored s' = stored t"
  shows "\<exists>cnt2. fst (main_try up s') = Inr cnt2 \<and> stored (snd (main_try up s')) = stored s'"
proof -
  from first obtain total s1 all s2 where c: "get_pokemon_count up s = (Inr total, s1)"
    and m: "main_loop up (get_loaded_pokemon_ids s) [1..total]
           \<lparr>success_count = 0, skipped_count = 0, fail_count = 0\<rparr> [] s1 = (Inr (cnt, all), s2)"
    and t: "t = commit (insert_evolutions s2 (remdups all))"
    by (rule main_try_Inr_cases)
  have l2: "get_loaded_pokemon_ids s' = get_loaded_pokemon_ids s2"
    using loaded_stored [OF same] by (simp add: t get_loaded_pokemon_ids_def commit_def emit_def)
  have mono: "get_loaded_pokemon_ids s \<subseteq> get_loaded_pokemon_ids s2"
  proof
    fix j assume "j \<in> get_loaded_pokemon_ids s"
    then have "j \<in> get_loaded_pokemon_ids (snd (get_pokemon_count up s))"
      by (rule count_loaded)
    then have "j \<in> get_loaded_pokemon_ids s1" using c by simp
    from main_loop_loaded_mono [OF this, where up = up and loaded = "get_loaded_pokemon_ids s"
        and ids = "[1..total]"
        and cnt = "\<lparr>success_count = 0, skipped_count = 0, fail_count = 0\<rparr>" and all = "[]"] m
    show "j \<in> get_loaded_pokemon_ids s2" by simp
  qed
  have cover: "i \<in> get_loaded_pokemon_ids s'
               \<or> (absent_upstream up i \<and> \<not> sleep_interrupted up i)"
    if "i \<in> set [1..total]" for i
    using main_loop_done [OF m that] mono l2 by auto
  obtain r' s1' where c': "get_pokemon_count up s' = (r', s1')"
    by (cases "get_pokemon_count up s'")
  have r': "r' = Inr total"
    using get_pokemon_count_fst [of up s' s] c c' by simp
  have st1: "stored s1' = stored s'"
    using get_pokemon_count_stored [of up s'] c' by simp
  from main_loop_noop [of "[1..total]" "get_loaded_pokemon_ids s'" up
      "\<lparr>success_count = 0, skipped_count = 0, fail_count = 0\<rparr>" "[]" s1'] cover
  obtain cnt2 s2' where m': "main_loop up (get_loaded_pokemon_ids s') [1..total]
      \<lparr>success_count = 0, skipped_count = 0, fail_count = 0\<rparr> [] s1' = (Inr (cnt2, []), s2')"
    and st2: "stored s2' = stored s1'"
    by blast
  have "main_try up s' = (Inr cnt2, commit s2')"
    using c' r' m' by (simp add: main_try_def Let_def insert_evolutions_def)
  then show ?thesis using st1 st2 by simp
qed

lemma main_second_run:
  assumes first: "fst (main up conn) = Inr cnt" and same: "stored conn' = stored (snd (main up conn))"
  shows "\<exists>cnt2. fst (main up conn') = Inr cnt2 \<and> stored (snd (main up conn')) = stored conn'"
proof -
  let ?s = "bulk_insert (conn\<lparr>foreign_keys := True\<rparr>)"
  let ?s' = "bulk_insert (conn'\<lparr>foreign_keys := True\<rparr>)"
  from first have f: "main_try up ?s = (Inr cnt, snd (main_try up ?s))"
    by (simp add: main_unfold prod_eq_iff)
  have "stored ?s' = stored (snd (main_try up ?s))"
    using same by (simp add: main_unfold)
  from main_try_second_run [OF f this] show ?thesis
    by (simp add: main_unfold)
qed

lemma keys_ok_main:
  assumes "keys_ok conn"
  shows "keys_ok (snd (main up conn))"
proof (rule main_closed [where P = keys_ok])
  show "loop_closed i keys_ok" for i by (rule keys_ok_closed)
  show "keys_ok (emit ev t)" if "keys_ok t" for t :: state and ev
    using that by (simp add: keys_ok_def emit_def)
  show "keys_ok (insert_evolution t a b)" if "keys_ok t" for t :: state and a b
    using that by (rule keys_ok_insert_evolution)
  show "keys_ok (restore_sqlite_settings t)" if "keys_ok t" for t
    using that by (simp add: keys_ok_def restore_sqlite_settings_def)
  show "keys_ok (bulk_insert (conn\<lparr>foreign_keys := True\<rparr>))"
    using assms by (simp add: keys_ok_def bulk_insert_def)
qed

subsection \<open>A run on the single-id service\<close>

lemma count_first_ok:
  "count_response up 0 = Ok (Some n) \<Longrightarrow> get_pokemon_count up s = (Inr n, emit HttpCount s)"
  by (simp add: get_pokemon_count_def numeral_3_eq_3 Let_def)

lemma one_plain_process:
  "process_pokemon (one_plain\<lparr>sleep_interrupted := f\<rparr>) s 1 =
     (Inr (Some []),
      insert_weight (insert_height (insert_pokemon
        (emit (HttpSpecies 1) (emit (HttpPokemon 1) s)) 1 ''ditto'') 1 3) 1 40)"
  by (simp add: process_pokemon_def fetch_pokemon_data_def fetch_species_data_def write_rows_def
      process_species_def one_plain_def plain_doc_def empty_pokemon_doc_def get_or_def Let_def)

lemma one_plain_try:
  "1 \<notin> get_loaded_pokemon_ids s \<Longrightarrow>
   main_try one_plain s =
     (Inr \<lparr>success_count = 1, skipped_count = 0, fail_count = 0\<rparr>,
      commit (emit (Sleep RequestDelay)
        (insert_weight (insert_height (insert_pokemon
          (emit (HttpSpecies 1) (emit (HttpPokemon 1) (emit HttpCount s))) 1 ''ditto'') 1 3)
           1 40)))"
proof -
  assume n: "1 \<notin> get_loaded_pokemon_ids s"
  have c: "get_pokemon_count one_plain s = (Inr 1, emit HttpCount s)"
    by (rule count_first_ok) (simp add: one_plain_def)
  have p: "process_pokemon one_plain t 1 =
     (Inr (Some []),
      insert_weight (insert_height (insert_pokemon
        (emit (HttpSpecies 1) (emit (HttpPokemon 1) t)) 1 ''ditto'') 1 3) 1 40)" for t
    using one_plain_process [of "sleep_interrupted one_plain" t] by simp
  have ni: "\<not> sleep_interrupted one_plain 1" by (simp add: one_plain_def)
  show ?thesis
    using n ni by (simp add: main_try_def c p Let_def insert_evolutions_def)
qed



subsection \<open>Insert if absent\<close>

lemma upsert_present:
  "pokemon_id \<in> fst ` set (pokemon c) \<Longrightarrow> insert_pokemon c pokemon_id name = c"
  "type_id \<in> fst ` set (types c) \<Longrightarrow> insert_type c type_id name = c"
  "stat_id \<in> fst ` set (stats c) \<Longrightarrow> insert_stat c stat_id name = c"
  "move_id \<in> fst ` set (moves c) \<Longrightarrow> insert_move c move_id name = c"
  "dex_id \<in> fst ` set (dex c) \<Longrightarrow> insert_dex c dex_id name = c"
  "pokemon_id \<in> fst ` set (height c) \<Longrightarrow> insert_height c pokemon_id v = c"
  "pokemon_id \<in> fst ` set (weight c) \<Longrightarrow> insert_weight c pokemon_id v = c"
  "(pokemon_id, type_id) \<in> set (pokemon_type c) \<Longrightarrow> insert_pokemon_type c pokemon_id type_id = c"
  "(pokemon_id, stat_id, v) \<in> set (pokemon_stat c) \<Longrightarrow>
     insert_pokemon_stat c pokemon_id stat_id v = c"
  "(pokemon_id, move_id) \<in> set (pokemon_move c) \<Longrightarrow> insert_pokemon_move c pokemon_id move_id = c"
  "(pokemon_id, dex_id) \<in> set (pokemon_number c) \<Longrightarrow>
     insert_pokemon_number c pokemon_id dex_id = c"
  by (simp_all add: upsert_defs insert_or_ignore_def)

lemma insert_evolution_present:
  "(a, b) \<in> set (evolutions c) \<Longrightarrow> insert_evolution c a b = c"
  by (simp add: insert_evolution_def Let_def insert_or_ignore_def)

text \<open>
  C2: every upsert is insert-if-absent: on a state that already holds a row with the
  given key the call returns the state unchanged, whatever the other columns passed, and
  it never raises. Consequently, when a run of the whole loader has completed, a second
  run against the same answers of the service, started on the rows the first one left,
  completes as well and leaves the stored rows exactly as they were; and every run,
  completed or cut by an exception or an interrupt, keeps the keys of every table unique,
  so that a re-run never duplicates a row.
\<close>

theorem upserts_idempotent:
  "(pokemon_id \<in> fst ` set (pokemon c) \<longrightarrow> insert_pokemon c pokemon_id name = c)
   \<and> (type_id \<in> fst ` set (types c) \<longrightarrow> insert_type c type_id name = c)
   \<and> (stat_id \<in> fst ` set (stats c) \<longrightarrow> insert_stat c stat_id name = c)
   \<and> (move_id \<in> fst ` set (moves c) \<longrightarrow> insert_move c move_id name = c)
   \<and> (dex_id \<in> fst ` set (dex c) \<longrightarrow> insert_dex c dex_id name = c)
   \<and> (pokemon_id \<in> fst ` set (height c) \<longrightarrow> insert_height c pokemon_id v = c)
   \<and> (pokemon_id \<in> fst ` set (weight c) \<longrightarrow> insert_weight c pokemon_id v = c)
   \<and> ((pokemon_id, type_id) \<in> set (pokemon_type c) \<longrightarrow>
        insert_pokemon_type c pokemon_id type_id = c)
   \<and> ((pokemon_id, stat_id, v) \<in> set (pokemon_stat c) \<longrightarrow>
        insert_pokemon_stat c pokemon_id stat_id v = c)
   \<and> ((pokemon_id, move_id) \<in> set (pokemon_move c) \<longrightarrow>
        insert_pokemon_move c pokemon_id move_id = c)
   \<and> ((pokemon_id, dex_id) \<in> set (pokemon_number c) \<longrightarrow>
        insert_pokemon_number c pokemon_id dex_id = c)
   \<and> ((a, b) \<in> set (evolutions c) \<longrightarrow> insert_evolution c a b = c)
   \<and> (fst (main up conn) = Inr cnt \<and> stored conn' = stored (snd (main up conn)) \<longrightarrow>
        (\<exists>cnt2. fst (main up conn') = Inr cnt2)
        \<and> stored (snd (main up conn')) = stored (snd (main up conn)))
   \<and> (keys_ok conn \<longrightarrow> keys_ok (snd (main up conn)))"
proof -
  have run: "(\<exists>cnt2. fst (main up conn') = Inr cnt2)
        \<and> stored (snd (main up conn')) = stored (snd (main up conn))"
    if "fst (main up conn) = Inr cnt \<and> stored conn' = stored (snd (main up conn))"
  proof -
    from that have f: "fst (main up conn) = Inr cnt"
      and s: "stored conn' = stored (snd (main up conn))"
      by simp_all
    from main_second_run [OF f s] s show ?thesis by auto
  qed
  show ?thesis
    by (intro conjI impI;
        ((rule upsert_present insert_evolution_present keys_ok_main, assumption)
         | (drule run, blast)))
qed

theorem upserts_idempotent_witness:
  "1 \<in> fst ` set (pokemon full_store) \<and> (1, 12) \<in> set (pokemon_type full_store)
   \<and> (1, 2) \<in> set (evolutions full_store)
   \<and> insert_pokemon full_store 1 ''renamed'' = full_store
   \<and> insert_height full_store 1 99 = full_store
   \<and> insert_pokemon_type full_store 1 12 = full_store
   \<and> insert_pokemon_stat full_store 1 1 45 = full_store
   \<and> insert_evolution full_store 1 2 = full_store
   \<and> keys_ok fresh_conn
   \<and> fst (main one_plain fresh_conn)
       = Inr \<lparr>success_count = 1, skipped_count = 0, fail_count = 0\<rparr>
   \<and> pokemon (snd (main one_plain fresh_conn)) = [(1, ''ditto'')]
   \<and> stored (snd (main one_plain (reopen (snd (main one_plain fresh_conn)))))
       = stored (snd (main one_plain fresh_conn))
   \<and> keys_ok (snd (main one_plain fresh_conn))"
proof -
  let ?s = "bulk_insert (fresh_conn\<lparr>foreign_keys := True\<rparr>)"
  have h: "1 \<in> fst ` set (pokemon full_store)" "12 \<in> fst ` set (types full_store)"
    "1 \<in> fst ` set (stats full_store)" "33 \<in> fst ` set (moves full_store)"
    "2 \<in> fst ` set (dex full_store)" "1 \<in> fst ` set (height full_store)"
    "1 \<in> fst ` set (weight full_store)" "(1, 12) \<in> set (pokemon_type full_store)"
    "(1, 1, 45) \<in> set (pokemon_stat full_store)" "(1, 33) \<in> set (pokemon_move full_store)"
    "(1, 2) \<in> set (pokemon_number full_store)" "(1, 2) \<in> set (evolutions full_store)"
    by (simp_all add: full_store_def)
  have k: "keys_ok fresh_conn" by (simp add: keys_ok_def fresh_conn_def)
  have n: "1 \<notin> get_loaded_pokemon_ids ?s"
    by (simp add: fresh_conn_def get_loaded_pokemon_ids_def bulk_insert_def)
  have f: "fst (main one_plain fresh_conn)
       = Inr \<lparr>success_count = 1, skipped_count = 0, fail_count = 0\<rparr>"
    by (simp add: main_unfold one_plain_try [OF n])
  have k1: "1 \<notin> fst ` set (pokemon ?s)"
    using n by (simp add: get_loaded_pokemon_ids_def)
  have "pokemon (snd (main one_plain fresh_conn)) = pokemon ?s @ [(1, ''ditto'')]"
    unfolding main_unfold one_plain_try [OF n] snd_conv
    using k1
    by (simp add: upsert_defs emit_def commit_def restore_sqlite_settings_def
        insert_or_ignore_def)
  then have p: "pokemon (snd (main one_plain fresh_conn)) = [(1, ''ditto'')]"
    by (simp add: bulk_insert_def fresh_conn_def)
  have r: "stored (reopen (snd (main one_plain fresh_conn))) = stored (snd (main one_plain fresh_conn))"
    by (simp add: reopen_def stored_def)
  note T1 = upserts_idempotent [where c = full_store and pokemon_id = 1 and type_id = 12
      and stat_id = 1 and move_id = 33 and dex_id = 2 and v = 45 and a = 1 and b = 2
      and name = "''renamed''" and up = one_plain and conn = fresh_conn
      and cnt = "\<lparr>success_count = 1, skipped_count = 0, fail_count = 0\<rparr>"
      and conn' = "reopen (snd (main one_plain fresh_conn))"]
  note T2 = upserts_idempotent [where c = full_store and pokemon_id = 1 and v = 99]
  have c1: "insert_pokemon full_store 1 ''renamed'' = full_store"
    and c2: "insert_pokemon_type full_store 1 12 = full_store"
    and c3: "insert_pokemon_stat full_store 1 1 45 = full_store"
    and c4: "insert_evolution full_store 1 2 = full_store"
    and c5: "stored (snd (main one_plain (reopen (snd (main one_plain fresh_conn)))))
       = stored (snd (main one_plain fresh_conn))"
    and c6: "keys_ok (snd (main one_plain fresh_conn))"
    using T1 h k f r by blast+
  have c7: "insert_height full_store 1 99 = full_store"
    using T2 h by blast
  from h k f p c1 c2 c3 c4 c5 c6 c7 show ?thesis by blast
qed

subsection \<open>The record row as the completion marker\<close>







end
